theory Spec2Isabelle
  imports Complex_Main
begin

section \<open>The descent curves of BrachistochroneDemo.tsx\<close>

text \<open>
  JavaScript numbers are modelled as the reals they approximate: \<open>Math.sin\<close>, \<open>Math.cos\<close>,
  \<open>Math.sqrt\<close>, \<open>Math.PI\<close> are \<open>sin\<close>, \<open>cos\<close>, \<open>sqrt\<close>, \<open>pi\<close>, and \<open>Math.pow(x, 2)\<close> is
  \<open>x ^ 2\<close>. Rounding, infinities and NaN are outside this model; the section on double
  arithmetic below models the rounding for the two cycloid formulas.

  A curve is the object literal \<open>{func, color, time}\<close>; the two-element array returned by
  \<open>func\<close> is a pair. The \<open>curves\<close> object is an association list in the insertion order of
  its keys, which is the order \<open>Object.entries\<close> enumerates them in.
\<close>

record CurveData =
  func :: "real \<Rightarrow> real \<times> real"
  color :: string
  time :: real

definition brachistochrone_func :: "real \<Rightarrow> real \<times> real" where
  "brachistochrone_func t =
     (let theta = t * pi
      in ((theta - sin theta) / pi, (1 - cos theta) / 2))"

definition straight_line_func :: "real \<Rightarrow> real \<times> real" where
  "straight_line_func t = (t, t)"

definition parabola_func :: "real \<Rightarrow> real \<times> real" where
  "parabola_func t = (t, t * (2 - t))"

definition parametric_cycloid_func :: "real \<Rightarrow> real \<Rightarrow> real \<times> real" where
  "parametric_cycloid_func cycloidParameter t =
     (t - sin (pi * t) / pi,
      (1 - cos (pi * t)) / 2 + cycloidParameter * (sin (pi * t)) ^ 2)"

definition curves :: "real \<Rightarrow> (string \<times> CurveData) list" where
  "curves cycloidParameter =
     [(''Brachistochrone'',
         \<lparr>func = brachistochrone_func, color = ''#3b82f6'', time = 2.0\<rparr>),
      (''Straight Line'',
         \<lparr>func = straight_line_func, color = ''#ef4444'', time = 2.5\<rparr>),
      (''Parabola'',
         \<lparr>func = parabola_func, color = ''#8b5cf6'', time = 2.1\<rparr>),
      (''Parametric Cycloid'',
         \<lparr>func = parametric_cycloid_func cycloidParameter, color = ''#f59e0b'',
          time = 2.0 * (1 + cycloidParameter)\<rparr>)]"

text \<open>\<open>curves[label]\<close>: the property lookup, \<open>None\<close> for \<open>undefined\<close>.\<close>

definition curve_at :: "real \<Rightarrow> string \<Rightarrow> CurveData option" where
  "curve_at cycloidParameter label = map_of (curves cycloidParameter) label"

section \<open>The two cycloid formulas in double arithmetic\<close>

text \<open>
  The position functions of the Brachistochrone and of the Parametric Cycloid once more,
  this time with the rounding of IEEE 754 binary64 written out, to compare what the two
  compute. A double is the real number it stands for. \<open>fl\<close> rounds a real to the nearest
  double, ties to the even significand: the result is a multiple of the quantum \<open>2^q\<close>,
  where \<open>q\<close> is 52 below the binary exponent of the argument and never below \<open>-1074\<close>
  (the subnormal range). Overflow to \<open>Infinity\<close> is outside the model: from \<open>2^1024\<close> on
  the largest quantum is kept. Each arithmetic operation of the source is the exact
  operation followed by \<open>fl\<close>.
\<close>

definition pow2 :: "int \<Rightarrow> real" where
  "pow2 e = (if 0 \<le> e then 2 ^ nat e else 1 / 2 ^ nat (- e))"

text \<open>Rounding to the nearest integer, ties to even.\<close>

definition rne :: "real \<Rightarrow> int" where
  "rne x =
     (let f = \<lfloor>x\<rfloor>; r = x - of_int f
      in if r < 1/2 then f else if 1/2 < r then f + 1 else if even f then f else f + 1)"

text \<open>
  The binary exponent of a nonnegative real: the largest \<open>e\<close> from 1023 down to \<open>-1073\<close>
  with \<open>2^e \<le> x\<close>, and \<open>-1074\<close> when there is none.
\<close>

fun exponent_from :: "nat \<Rightarrow> int \<Rightarrow> real \<Rightarrow> int" where
  "exponent_from 0 e x = e"
| "exponent_from (Suc n) e x = (if pow2 e \<le> x then e else exponent_from n (e - 1) x)"

definition exponent :: "real \<Rightarrow> int" where
  "exponent x = exponent_from 2097 1023 x"

definition quantum :: "real \<Rightarrow> int" where
  "quantum x = max (exponent \<bar>x\<bar> - 52) (- 1074)"

definition fl :: "real \<Rightarrow> real" where
  "fl x = sgn x * (of_int (rne (\<bar>x\<bar> / pow2 (quantum x))) * pow2 (quantum x))"

text \<open>\<open>Math.PI\<close>, the double nearest to \<open>pi\<close>.\<close>

definition Math_PI :: real where
  "Math_PI = 884279719003555 / 281474976710656"

text \<open>
  \<open>Math.sin\<close>, \<open>Math.cos\<close> and \<open>Math.pow\<close> belong to the engine, and the language standard
  leaves their results implementation-approximated; they are parameters. The inputs \<open>t\<close>
  and \<open>cycloidParameter\<close> are doubles.
\<close>

definition brachistochrone_func_double ::
    "(real \<Rightarrow> real) \<Rightarrow> (real \<Rightarrow> real) \<Rightarrow> real \<Rightarrow> real \<times> real" where
  "brachistochrone_func_double Math_sin Math_cos t =
     (let theta = fl (t * Math_PI)
      in (fl (fl (theta - Math_sin theta) / Math_PI), fl (fl (1 - Math_cos theta) / 2)))"

definition parametric_cycloid_func_double ::
    "(real \<Rightarrow> real) \<Rightarrow> (real \<Rightarrow> real) \<Rightarrow> (real \<Rightarrow> real \<Rightarrow> real) \<Rightarrow> real \<Rightarrow> real
       \<Rightarrow> real \<times> real" where
  "parametric_cycloid_func_double Math_sin Math_cos Math_pow cycloidParameter t =
     (fl (t - fl (Math_sin (fl (Math_PI * t)) / Math_PI)),
      fl (fl (fl (1 - Math_cos (fl (Math_PI * t))) / 2)
          + fl (cycloidParameter * Math_pow (Math_sin (fl (Math_PI * t))) 2)))"

text \<open>The \<open>time\<close> of the Parametric Cycloid, \<open>2.0 * (1 + cycloidParameter)\<close>.\<close>

definition parametric_cycloid_time_double :: "real \<Rightarrow> real" where
  "parametric_cycloid_time_double cycloidParameter = fl (2.0 * fl (1 + cycloidParameter))"

text \<open>
  A sample evaluation: the progress is the double nearest to 0.3, for which the argument of
  the sine and cosine is the double 0.9424777960769379. The engine routines are stood for
  by routines that return the doubles nearest to the sine, the cosine and the squared sine
  of that argument: 0.8090169943749475, 0.5877852522924731 and 0.6545084971874737.
\<close>

definition returning :: "'a \<Rightarrow> 'b \<Rightarrow> 'a" where
  "returning v x = v"

definition progress_sample :: real where
  "progress_sample = 5404319552844595 / 18014398509481984"

definition sine_sample :: real where
  "sine_sample = 910872158600853 / 1125899906842624"

definition cosine_sample :: real where
  "cosine_sample = 2647149443198255 / 4503599627370496"

definition squared_sine_sample :: real where
  "squared_sine_sample = 1473822112022165 / 2251799813685248"

section \<open>Component state\<close>

text \<open>
  The React state and refs of the component that the frame loop and the handlers read or
  write. \<open>elapsedTimes\<close> and \<open>distanceToEnd\<close> are the \<open>Record\<close> objects, as partial maps.
  \<open>animationFrameRequested\<close> holds when a \<open>requestAnimationFrame\<close> callback is pending under
  the handle \<open>animationFrameId\<close>.
\<close>

datatype AnimationState = Idle | Running | Paused

record state =
  animationState :: AnimationState
  animationSpeed :: real
  cycloidParameter :: real
  elapsedTimes :: "string \<rightharpoonup> string"
  rankings :: "string list"
  prevRankings :: "string list"
  startTimeRef :: "real option"
  isAnimationComplete :: bool
  pausedElapsedTime :: real
  lastTimestampRef :: "real option"
  distanceToEnd :: "string \<rightharpoonup> real"
  animationFrameRequested :: bool

text \<open>The values of the \<open>useState\<close> and \<open>useRef\<close> initialisers.\<close>

definition initial_state :: state where
  "initial_state =
     \<lparr>animationState = Idle, animationSpeed = 0.5, cycloidParameter = 0.2,
      elapsedTimes = Map.empty, rankings = [], prevRankings = [],
      startTimeRef = None, isAnimationComplete = False, pausedElapsedTime = 0,
      lastTimestampRef = None, distanceToEnd = Map.empty,
      animationFrameRequested = False\<rparr>"

section \<open>Number formatting\<close>

text \<open>
  \<open>Number.prototype.toFixed(f)\<close> on a real \<open>x\<close> with \<open>\<bar>x\<bar> < 10^21\<close>: the integer \<open>n\<close> nearest
  to \<open>\<bar>x\<bar> * 10^f\<close> (the larger one on a tie) is written in decimal, padded with zeros to
  \<open>f + 1\<close> digits, and the point is put before the last \<open>f\<close> digits; a negative \<open>x\<close> gets
  the sign in front.
\<close>

definition digit_char :: "nat \<Rightarrow> char" where
  "digit_char d = char_of (48 + d)"

fun decimal :: "nat \<Rightarrow> string" where
  "decimal n = (if n < 10 then [digit_char n] else decimal (n div 10) @ [digit_char (n mod 10)])"

declare decimal.simps [simp del]

definition toFixed :: "nat \<Rightarrow> real \<Rightarrow> string" where
  "toFixed f x =
     (let n = nat \<lfloor>\<bar>x\<bar> * 10 ^ f + 1 / 2\<rfloor>;
          m = decimal n;
          m' = (if f \<noteq> 0 \<and> length m \<le> f then replicate (f + 1 - length m) CHR ''0'' @ m else m);
          k = length m';
          body = (if f \<noteq> 0 then take (k - f) m' @ ''.'' @ drop (k - f) m' else m')
      in (if x < 0 then ''-'' @ body else body))"

section \<open>The frame loop\<close>

text \<open>
  \<open>lastTimestampRef.current || timestamp\<close>: the right operand is taken when the left one is
  falsy, that is \<open>null\<close> or the number 0.
\<close>

definition or_timestamp :: "real option \<Rightarrow> real \<Rightarrow> real" where
  "or_timestamp lastTimestamp timestamp =
     (case lastTimestamp of None \<Rightarrow> timestamp | Some l \<Rightarrow> if l = 0 then timestamp else l)"

text \<open>
  The first statements of \<open>drawFrame\<close>: both refs are set on the first frame after they were
  cleared, then the elapsed time is advanced while running.
\<close>

definition init_refs :: "state \<Rightarrow> real \<Rightarrow> state" where
  "init_refs s timestamp =
     (if startTimeRef s = None
      then s\<lparr>startTimeRef := Some timestamp, lastTimestampRef := Some timestamp\<rparr>
      else s)"

definition elapsedTime :: "state \<Rightarrow> real \<Rightarrow> real" where
  "elapsedTime s timestamp =
     (if animationState s = Running
      then (let deltaTime = timestamp - or_timestamp (lastTimestampRef (init_refs s timestamp)) timestamp
            in pausedElapsedTime s + deltaTime / 1000 * animationSpeed s)
      else pausedElapsedTime s)"

text \<open>
  One entry \<open>[label, progress, distance]\<close> per curve, in the order of \<open>Object.entries\<close>.
  \<open>time\<close> is positive for every shape parameter above \<open>-1\<close>, so the division is defined on
  the slider's range.
\<close>

definition progress_of :: "CurveData \<Rightarrow> real \<Rightarrow> real" where
  "progress_of curve elapsed = min (elapsed / time curve) 1"

definition distance_of :: "real \<times> real \<Rightarrow> real" where
  "distance_of p = (case p of (x, y) \<Rightarrow> sqrt ((1 - x) ^ 2 + (1 - y) ^ 2))"

definition progressData :: "(string \<times> CurveData) list \<Rightarrow> real \<Rightarrow> (string \<times> real \<times> real) list" where
  "progressData cs elapsed =
     map (\<lambda>(label, curve).
            let progress = progress_of curve elapsed
            in (label, progress, distance_of (func curve progress))) cs"

text \<open>
  \<open>Array.prototype.sort\<close> with the comparator \<open>(a, b) => a[2] - b[2]\<close>. The language
  standard makes the sort stable: an element stays in front of a later one unless the
  comparator puts the later one strictly first. Insertion from the right does that.
\<close>

fun insert_sorted :: "('a \<Rightarrow> 'a \<Rightarrow> real) \<Rightarrow> 'a \<Rightarrow> 'a list \<Rightarrow> 'a list" where
  "insert_sorted cmp a [] = [a]"
| "insert_sorted cmp a (b # bs) =
     (if cmp a b \<le> 0 then a # b # bs else b # insert_sorted cmp a bs)"

fun array_sort :: "('a \<Rightarrow> 'a \<Rightarrow> real) \<Rightarrow> 'a list \<Rightarrow> 'a list" where
  "array_sort cmp [] = []"
| "array_sort cmp (a # as) = insert_sorted cmp a (array_sort cmp as)"

definition by_distance :: "string \<times> real \<times> real \<Rightarrow> string \<times> real \<times> real \<Rightarrow> real" where
  "by_distance a b = snd (snd a) - snd (snd b)"

definition sortedProgressData :: "state \<Rightarrow> real \<Rightarrow> (string \<times> real \<times> real) list" where
  "sortedProgressData s timestamp =
     array_sort by_distance (progressData (curves (cycloidParameter s)) (elapsedTime s timestamp))"

definition newRankings :: "state \<Rightarrow> real \<Rightarrow> string list" where
  "newRankings s timestamp = map fst (sortedProgressData s timestamp)"

text \<open>
  \<open>Math.max(...xs)\<close> is \<open>-Infinity\<close> for no arguments (\<open>None\<close> here), so every number reaches it.
\<close>

fun Math_max :: "real list \<Rightarrow> real option" where
  "Math_max [] = None"
| "Math_max (x # xs) = (case Math_max xs of None \<Rightarrow> Some x | Some m \<Rightarrow> Some (max x m))"

definition reaches_max :: "real \<Rightarrow> real list \<Rightarrow> bool" where
  "reaches_max e xs = (case Math_max xs of None \<Rightarrow> True | Some m \<Rightarrow> e \<ge> m)"

definition run_finished :: "state \<Rightarrow> real \<Rightarrow> bool" where
  "run_finished s timestamp =
     reaches_max (elapsedTime s timestamp) (map (\<lambda>(label, c). time c) (curves (cycloidParameter s)))"

text \<open>
  The two functional state updates. Every label of the progress data is a key of \<open>curves\<close>,
  so the lookup \<open>curves[label]\<close> is always defined; the \<open>None\<close> branch is never taken.
\<close>

definition newDistances :: "(string \<times> real \<times> real) list \<Rightarrow> (string \<rightharpoonup> real) \<Rightarrow> (string \<rightharpoonup> real)" where
  "newDistances pd prev = fold (\<lambda>(label, progress, distance) m. m(label \<mapsto> distance)) pd prev"

definition newTimes :: "real \<Rightarrow> (string \<times> real \<times> real) list \<Rightarrow> (string \<rightharpoonup> string) \<Rightarrow> (string \<rightharpoonup> string)" where
  "newTimes E pd prev =
     fold (\<lambda>(label, progress, distance) m.
             case curve_at E label of
               None \<Rightarrow> m
             | Some c \<Rightarrow> m(label \<mapsto> toFixed 2 (time c) @ ''s'')) pd prev"

text \<open>
  \<open>drawFrame(timestamp)\<close>. The closure reads the state of the render that created it, and
  every state value it reads is a dependency of the effect, so it always reads the current
  state \<open>s\<close>; its \<open>set...\<close> calls make up the returned state. Canvas drawing is left out.
\<close>

definition drawFrame :: "state \<Rightarrow> real \<Rightarrow> state" where
  "drawFrame s timestamp =
     (let s1 = init_refs s timestamp;
          s2 = (if animationState s = Running then s1\<lparr>lastTimestampRef := Some timestamp\<rparr> else s1);
          pd = sortedProgressData s timestamp;
          s3 = (if newRankings s timestamp \<noteq> rankings s
                then s2\<lparr>prevRankings := rankings s, rankings := newRankings s timestamp\<rparr>
                else s2);
          s4 = s3\<lparr>distanceToEnd := newDistances pd (distanceToEnd s)\<rparr>;
          s5 = (if isAnimationComplete s
                then s4\<lparr>elapsedTimes := newTimes (cycloidParameter s) pd (elapsedTimes s)\<rparr>
                else s4)
      in if run_finished s timestamp
         then s5\<lparr>animationState := Idle, isAnimationComplete := True\<rparr>
         else if animationState s = Running
         then s5\<lparr>pausedElapsedTime := elapsedTime s timestamp, animationFrameRequested := True\<rparr>
         else s5)"

text \<open>
  A pending animation frame fires: the request is used up and \<open>drawFrame\<close> runs.
\<close>

definition frame :: "state \<Rightarrow> real \<Rightarrow> state" where
  "frame s timestamp = drawFrame (s\<lparr>animationFrameRequested := False\<rparr>) timestamp"

text \<open>
  The effect, run again after a render in which one of its dependencies changed: the
  cleanup of the previous run cancels the pending frame, then a frame is requested while
  running and \<open>drawFrame(performance.now())\<close> is called otherwise.
\<close>

definition effect :: "state \<Rightarrow> real \<Rightarrow> state" where
  "effect s now =
     (let s0 = s\<lparr>animationFrameRequested := False\<rparr>
      in if animationState s = Running
         then s0\<lparr>animationFrameRequested := True\<rparr>
         else drawFrame s0 now)"

section \<open>The button handlers\<close>

definition handleStartAnimation :: "state \<Rightarrow> state" where
  "handleStartAnimation s =
     s\<lparr>startTimeRef := None, lastTimestampRef := None, pausedElapsedTime := 0,
       animationState := Running, elapsedTimes := Map.empty, isAnimationComplete := False\<rparr>"

definition handlePauseAnimation :: "state \<Rightarrow> state" where
  "handlePauseAnimation s = s\<lparr>animationState := Paused\<rparr>"

definition handleResumeAnimation :: "state \<Rightarrow> state" where
  "handleResumeAnimation s = s\<lparr>lastTimestampRef := None, animationState := Running\<rparr>"

definition handleResetAnimation :: "state \<Rightarrow> state" where
  "handleResetAnimation s =
     s\<lparr>startTimeRef := None, lastTimestampRef := None, pausedElapsedTime := 0,
       animationState := Idle, elapsedTimes := Map.empty\<rparr>"

text \<open>
  The two sliders: \<open>setAnimationSpeed(value)\<close> and \<open>setCycloidParameter(value)\<close>.
\<close>

definition setAnimationSpeed :: "real \<Rightarrow> state \<Rightarrow> state" where
  "setAnimationSpeed v s = s\<lparr>animationSpeed := v\<rparr>"

definition setCycloidParameter :: "real \<Rightarrow> state \<Rightarrow> state" where
  "setCycloidParameter v s = s\<lparr>cycloidParameter := v\<rparr>"

section \<open>The rankings display\<close>

text \<open>
  \<open>Array.prototype.indexOf\<close>: the first index of the element, \<open>-1\<close> when it is absent.
\<close>

fun indexOf :: "string list \<Rightarrow> string \<Rightarrow> int" where
  "indexOf [] x = - 1"
| "indexOf (y # ys) x =
     (if y = x then 0 else (let i = indexOf ys x in if i < 0 then - 1 else i + 1))"

datatype indicator = Up | Down | NoIndicator

text \<open>
  The arrow of the row that \<open>rankings.map((label, index) => ...)\<close> renders for \<open>label\<close> at
  \<open>index\<close>.
\<close>

definition rank_indicator :: "state \<Rightarrow> string \<Rightarrow> nat \<Rightarrow> indicator" where
  "rank_indicator s label index =
     (if \<not> isAnimationComplete s \<and> indexOf (prevRankings s) label \<noteq> int index
      then (if indexOf (prevRankings s) label > int index then Up else Down)
      else NoIndicator)"

text \<open>
  The metric text of a row. Calling \<open>toFixed\<close> on a missing distance throws (\<open>None\<close>);
  \<open>elapsedTimes[label] || '0.00s'\<close> falls back on a missing or empty entry.
\<close>

definition display_metric :: "state \<Rightarrow> string \<Rightarrow> string option" where
  "display_metric s label =
     (if isAnimationComplete s
      then (case elapsedTimes s label of
              None \<Rightarrow> Some ''0.00s''
            | Some t \<Rightarrow> Some (if t = [] then ''0.00s'' else t))
      else (case distanceToEnd s label of
              None \<Rightarrow> None
            | Some d \<Rightarrow> Some (toFixed 3 d)))"

section \<open>The parametric laws as the specification words them\<close>

text \<open>
  These definitions follow the specification's formulas, not the source; the curves defined
  from the source are compared with them below.
\<close>

definition spec_fastest_descent :: "real \<Rightarrow> real \<times> real" where
  "spec_fastest_descent t = (let \<theta> = pi * t in ((\<theta> - sin \<theta>) / pi, (1 - cos \<theta>) / 2))"

definition spec_direct_line :: "real \<Rightarrow> real \<times> real" where
  "spec_direct_line t = (t, t)"

definition spec_quadratic :: "real \<Rightarrow> real \<times> real" where
  "spec_quadratic t = (t, t * (2 - t))"

definition spec_tunable_shape :: "real \<Rightarrow> real \<Rightarrow> real \<times> real" where
  "spec_tunable_shape E t =
     (t - sin (pi * t) / pi, (1 - cos (pi * t)) / 2 + E * (sin (pi * t))\<^sup>2)"

definition spec_baseTime :: real where
  "spec_baseTime = 2.0"

definition spec_tunable_totalTime :: "real \<Rightarrow> real" where
  "spec_tunable_totalTime E = spec_baseTime * (1 + E)"

section \<open>Runs of the component\<close>

text \<open>
  The first run of the effect after the component mounts, and some runs built from the
  handlers and the frame function, used to state and try the properties below.
\<close>

definition mounted :: state where
  "mounted = effect initial_state 16"

text \<open>
  Pause at \<open>now\<close>, any number of redraws while paused (each at its own clock reading), then
  resume at \<open>now'\<close>.
\<close>

definition pause_wait_resume :: "state \<Rightarrow> real \<Rightarrow> real list \<Rightarrow> real \<Rightarrow> state" where
  "pause_wait_resume s now waits now' =
     effect (handleResumeAnimation
               (fold (\<lambda>t st. drawFrame st t) waits (effect (handlePauseAnimation s) now))) now'"

text \<open>
  A run at speed 1 from the mounted component: the speed slider is set to 1 (and the idle
  component redrawn), the run is started, a first frame comes at 1000 ms and a second one
  at 2000 ms, one second of elapsed time.
\<close>

definition speed_one :: state where
  "speed_one = effect (setAnimationSpeed 1 mounted) 100"

definition started_at_speed_one :: state where
  "started_at_speed_one = effect (handleStartAnimation speed_one) 500"

definition one_second_in :: state where
  "one_second_in = frame (frame started_at_speed_one 1000) 2000"

text \<open>
  A race with the shape parameter 0 at speed 1: both sliders are set on the mounted
  component, the run is started, and frames arrive at 1000, 3100 and 3500 ms, that is at the
  elapsed times 0, 2.1 and 2.5 seconds. The last frame finishes the run, and the effect then
  redraws the idle component.
\<close>

definition race_tuned :: state where
  "race_tuned = effect (setCycloidParameter 0 speed_one) 200"

definition race_started :: state where
  "race_started = effect (handleStartAnimation race_tuned) 500"

definition race_first :: state where
  "race_first = frame race_started 1000"

definition race_late :: state where
  "race_late = frame race_first 3100"

definition race_done :: state where
  "race_done = frame race_late 3500"

definition race_shown :: state where
  "race_shown = effect race_done 3501"

text \<open>The order of the labels in \<open>curves\<close>.\<close>

definition curve_order :: "string list" where
  "curve_order = [''Brachistochrone'', ''Straight Line'', ''Parabola'', ''Parametric Cycloid'']"

section \<open>Properties of the curves\<close>

text \<open>
  Over the reals the Parametric Cycloid with shape parameter 0 is the Brachistochrone:
  the position functions agree at every progress value and both times are 2.0.
\<close>

lemma real_laws_agree_at_zero:
  "\<exists>b c. curve_at 0 ''Brachistochrone'' = Some b
       \<and> curve_at 0 ''Parametric Cycloid'' = Some c
       \<and> func c t = func b t
       \<and> time c = 2.0 \<and> time b = 2.0"
  by (simp add: curve_at_def curves_def parametric_cycloid_func_def
        brachistochrone_func_def Let_def diff_divide_distrib mult.commute)

lemma cycloid_x_bounds:
  assumes "0 \<le> t" "t \<le> 1"
  shows "0 \<le> t - sin (pi * t) / pi \<and> t - sin (pi * t) / pi \<le> 1"
proof -
  have a: "0 \<le> pi * t" using assms by simp
  have b: "pi * t \<le> pi" using assms by (simp add: mult_left_le)
  have "sin (pi * t) \<le> pi * t" using a by (rule sin_x_le_x)
  then have "sin (pi * t) / pi \<le> t" by (simp add: divide_le_eq mult.commute)
  moreover have "0 \<le> sin (pi * t)" using a b by (rule sin_ge_zero)
  then have "0 \<le> sin (pi * t) / pi" by simp
  ultimately show ?thesis using assms by linarith
qed

lemma half_versine_bounds: "0 \<le> (1 - cos (x::real)) / 2 \<and> (1 - cos x) / 2 \<le> 1"
  using cos_le_one [of x] cos_ge_minus_one [of x] by simp

lemma parabola_bounds:
  assumes "0 \<le> (t::real)" "t \<le> 1"
  shows "0 \<le> t * (2 - t) \<and> t * (2 - t) \<le> 1"
proof -
  have "1 - t * (2 - t) = (1 - t)\<^sup>2" by (simp add: power2_eq_square algebra_simps)
  then have "t * (2 - t) \<le> 1" by (smt (verit) zero_le_power2)
  moreover have "0 \<le> t * (2 - t)" using assms by simp
  ultimately show ?thesis by simp
qed

lemma sin_squared_bounds: "0 \<le> (sin (x::real))\<^sup>2 \<and> (sin x)\<^sup>2 \<le> 1"
  by (simp add: abs_square_le_1)

lemma cycloid_y_small_parameter:
  assumes "0 \<le> E" "E \<le> 1/4"
  shows "(1 - cos (x::real)) / 2 + E * (sin x)\<^sup>2 \<le> 1"
proof -
  define q where "q = E * (sin x)\<^sup>2"
  have "(sin x)\<^sup>2 = 1 - (cos x)\<^sup>2"
    by (simp add: sin_squared_eq)
  also have "\<dots> = (1 - cos x) * (1 + cos x)"
    by (simp add: power2_eq_square algebra_simps)
  finally have q: "q = (E * (1 - cos x)) * (1 + cos x)"
    by (simp add: q_def)
  have c1: "0 \<le> 1 + cos x"
    using cos_ge_minus_one [of x] by linarith
  have c2: "0 \<le> 1 - cos x" "1 - cos x \<le> 2"
    using cos_le_one [of x] cos_ge_minus_one [of x] by linarith+
  have "E * (1 - cos x) \<le> (1/4) * 2"
    using assms c2 by (intro mult_mono) simp_all
  then have "q \<le> (1/2) * (1 + cos x)"
    unfolding q using c1 by (intro mult_right_mono) simp_all
  then have "(1 - cos x) / 2 + q \<le> 1"
    by argo
  then show ?thesis
    by (simp only: q_def)
qed

lemma cycloid_y_general:
  assumes "0 \<le> E"
  shows "0 \<le> (1 - cos (x::real)) / 2 + E * (sin x)\<^sup>2 \<and> (1 - cos x) / 2 + E * (sin x)\<^sup>2 \<le> 1 + E"
proof -
  have "E * (sin x)\<^sup>2 \<le> E * 1"
    using assms sin_squared_bounds [of x] by (intro mult_left_mono) simp_all
  moreover have "0 \<le> E * (sin x)\<^sup>2" using assms by simp
  ultimately show ?thesis using half_versine_bounds [of x] by linarith
qed

text \<open>
  The bound 1/4 on the shape parameter is sharp: for every larger shape parameter the
  Parametric Cycloid is above height 1 at some progress value in \<open>[0,1]\<close>.
\<close>

lemma cycloid_leaves_square:
  assumes "1/4 < E"
  shows "\<exists>t. 0 \<le> t \<and> t \<le> 1 \<and> 1 < snd (parametric_cycloid_func E t)"
proof -
  define y where "y = - 1 / (4 * E)"
  define t where "t = arccos y / pi"
  have E: "0 < E" using assms by simp
  have y1: "- 1 \<le> y" "y \<le> 1"
    using assms E by (simp_all add: y_def field_simps)
  have t01: "0 \<le> t" "t \<le> 1"
    using arccos_lbound [OF y1] arccos_ubound [OF y1] by (simp_all add: t_def)
  have c: "cos (pi * t) = y"
    using y1 by (simp add: t_def)
  have s: "(sin (pi * t))\<^sup>2 = 1 - y\<^sup>2"
    using c by (simp add: sin_squared_eq)
  have "0 < (4 * E - 1)\<^sup>2"
    using assms by simp
  then have "16 * E < 8 * E + 1 + 16 * E\<^sup>2"
    by (simp add: power2_eq_square algebra_simps)
  then have "1 < 1/2 + 1 / (16 * E) + E"
    using E by (simp add: field_simps power2_eq_square)
  moreover have "(1 - y) / 2 + E * (1 - y\<^sup>2) = 1/2 + 1 / (16 * E) + E"
    using E by (simp add: y_def field_simps power2_eq_square)
  ultimately have "1 < snd (parametric_cycloid_func E t)"
    by (simp add: parametric_cycloid_func_def c s)
  then show ?thesis
    using t01 by blast
qed

lemma curves_laws:
  "map (\<lambda>(label, c). (label, func c, time c)) (curves E) =
     [(''Brachistochrone'', spec_fastest_descent, 2),
      (''Straight Line'', spec_direct_line, 5/2),
      (''Parabola'', spec_quadratic, 21/10),
      (''Parametric Cycloid'', spec_tunable_shape E, spec_tunable_totalTime E)]"
  by (simp add: curves_def fun_eq_iff brachistochrone_func_def straight_line_func_def
      parabola_func_def parametric_cycloid_func_def spec_fastest_descent_def
      spec_direct_line_def spec_quadratic_def spec_tunable_shape_def spec_baseTime_def
      spec_tunable_totalTime_def Let_def mult.commute)

lemma straight_distance: "\<bar>distance_of (4/5, 4/5) - 0.2828\<bar> < 0.0001"
proof -
  have e: "distance_of (4/5, 4/5) = sqrt (2/25)"
    by (simp add: distance_of_def power2_eq_square)
  have lo: "0.2828 \<le> sqrt (2/25)"
    by (rule real_le_rsqrt) (simp add: power2_eq_square)
  have hi: "sqrt (2/25) \<le> 0.28285"
    by (rule real_le_lsqrt) (simp_all add: power2_eq_square)
  show ?thesis using lo hi unfolding e by (simp add: abs_if)
qed

lemma scenario_two:
  "map_of (progressData (curves 0) 2) ''Brachistochrone'' = Some (1, 0)
   \<and> map_of (progressData (curves 0) 2) ''Straight Line'' = Some (4/5, distance_of (4/5, 4/5))
   \<and> straight_line_func (4/5) = (4/5, 4/5)"
  by (simp add: progressData_def curves_def progress_of_def distance_of_def
        brachistochrone_func_def straight_line_func_def Let_def)

text \<open>
  C4. The four curves of the source are, in order, the specification's fastest-descent,
  direct-line, quadratic and tunable-shape laws with total times 2.0, 2.5, 2.1 and
  \<open>baseTime * (1 + E)\<close> for \<open>baseTime = 2.0\<close>. With \<open>E = 0\<close> at the elapsed time 2.0 the
  progress data of the fastest-descent curve is progress 1 and distance 0, and that of the
  direct line is progress 0.8 at position (0.8, 0.8) with a distance within 0.0001 of 0.2828.
\<close>

theorem curves_implement_spec_laws:
  "map (\<lambda>(label, c). (label, func c, time c)) (curves E) =
     [(''Brachistochrone'', spec_fastest_descent, 2),
      (''Straight Line'', spec_direct_line, 5/2),
      (''Parabola'', spec_quadratic, 21/10),
      (''Parametric Cycloid'', spec_tunable_shape E, spec_tunable_totalTime E)]
   \<and> spec_baseTime = 2
   \<and> map_of (progressData (curves 0) 2) ''Brachistochrone'' = Some (1, 0)
   \<and> map_of (progressData (curves 0) 2) ''Straight Line'' = Some (4/5, distance_of (4/5, 4/5))
   \<and> straight_line_func (4/5) = (4/5, 4/5)
   \<and> \<bar>distance_of (4/5, 4/5) - 0.2828\<bar> < 0.0001"
  using curves_laws [of E] straight_distance scenario_two
  by (simp add: spec_baseTime_def)

text \<open>
  C9. For every curve of the curve set built for a shape parameter in \<open>[0,1]\<close> and elapsed
  times \<open>0 \<le> e1 \<le> e2\<close>, the progress \<open>min(elapsed / time, 1)\<close> at \<open>e1\<close> is at most the progress
  at \<open>e2\<close>, and both lie in \<open>[0,1]\<close>.
\<close>

theorem progress_monotone_clamped:
  assumes "(label, c) \<in> set (curves E)" and "0 \<le> E" and "E \<le> 1"
    and "0 \<le> e1" and "e1 \<le> e2"
  shows "progress_of c e1 \<le> progress_of c e2
         \<and> 0 \<le> progress_of c e1 \<and> progress_of c e1 \<le> 1
         \<and> 0 \<le> progress_of c e2 \<and> progress_of c e2 \<le> 1"
proof -
  have pos: "0 < time c"
    using assms(1,2) by (auto simp: curves_def)
  have "e1 / time c \<le> e2 / time c"
    using pos assms(5) by (simp add: divide_right_mono)
  moreover have "0 \<le> e1 / time c"
    using pos assms(4) by simp
  ultimately show ?thesis
    by (simp add: progress_of_def min_def)
qed

theorem progress_monotone_clamped_witness:
  "(''Straight Line'', \<lparr>func = straight_line_func, color = ''#ef4444'', time = 2.5\<rparr>)
      \<in> set (curves (1/5))
   \<and> progress_of \<lparr>func = straight_line_func, color = ''#ef4444'', time = 2.5\<rparr> 1 = 2/5
   \<and> progress_of \<lparr>func = straight_line_func, color = ''#ef4444'', time = 2.5\<rparr> 3 = 1
   \<and> progress_of \<lparr>func = straight_line_func, color = ''#ef4444'', time = 2.5\<rparr> 1
       \<le> progress_of \<lparr>func = straight_line_func, color = ''#ef4444'', time = 2.5\<rparr> 3"
proof -
  have m: "(''Straight Line'', \<lparr>func = straight_line_func, color = ''#ef4444'', time = 2.5\<rparr>)
      \<in> set (curves (1/5))"
    by (simp add: curves_def)
  show ?thesis
    using m progress_monotone_clamped [OF m, of 1 3]
    by (simp add: progress_of_def)
qed

text \<open>
  C1, as amended. For every curve of the curve set built for a shape parameter \<open>E\<close> in
  \<open>[0,1]\<close> the position at progress 0 is (0,0) and at progress 1 is (1,1), and at every
  progress in \<open>[0,1]\<close> the x coordinate lies in \<open>[0,1]\<close> and the y coordinate in
  \<open>[0, 1 + E]\<close>. The y coordinate stays at or below 1, so the point is in the unit square,
  for the three fixed curves, and for the Parametric Cycloid when \<open>E \<le> 1/4\<close>.
\<close>

theorem position_bounds:
  assumes "(label, c) \<in> set (curves E)" and "0 \<le> E" and "E \<le> 1"
    and "0 \<le> t" and "t \<le> 1"
  shows "func c 0 = (0, 0) \<and> func c 1 = (1, 1)
         \<and> 0 \<le> fst (func c t) \<and> fst (func c t) \<le> 1
         \<and> 0 \<le> snd (func c t) \<and> snd (func c t) \<le> 1 + E
         \<and> (label \<noteq> ''Parametric Cycloid'' \<or> E \<le> 1/4 \<longrightarrow> snd (func c t) \<le> 1)"
proof -
  consider (b) "label = ''Brachistochrone''" "func c = brachistochrone_func"
    | (s) "label = ''Straight Line''" "func c = straight_line_func"
    | (p) "label = ''Parabola''" "func c = parabola_func"
    | (c) "label = ''Parametric Cycloid''" "func c = parametric_cycloid_func E"
    using assms(1) by (auto simp: curves_def)
  then show ?thesis
  proof cases
    case b
    show ?thesis
      using cycloid_x_bounds [OF assms(4,5)] half_versine_bounds [of "t * pi"] assms(2)
      by (simp add: b brachistochrone_func_def Let_def mult.commute diff_divide_distrib)
  next
    case s
    show ?thesis using assms(2,4,5) by (simp add: s straight_line_func_def)
  next
    case p
    show ?thesis using parabola_bounds [OF assms(4,5)] assms(2,4,5) by (simp add: p parabola_func_def)
  next
    case c
    show ?thesis
      using cycloid_x_bounds [OF assms(4,5)] cycloid_y_general [OF assms(2), of "pi * t"]
        cycloid_y_small_parameter [OF assms(2), of "pi * t"]
      by (simp add: c parametric_cycloid_func_def)
  qed
qed

theorem position_bounds_witness:
  "(''Parametric Cycloid'',
      \<lparr>func = parametric_cycloid_func (1/5), color = ''#f59e0b'', time = 2.0 * (1 + 1/5)\<rparr>)
     \<in> set (curves (1/5))
   \<and> (1/5 :: real) \<le> 1/4
   \<and> parametric_cycloid_func (1/5) 0 = (0, 0)
   \<and> parametric_cycloid_func (1/5) 1 = (1, 1)
   \<and> parametric_cycloid_func (1/5) (1/2) = (1/2 - 1/pi, 7/10)
   \<and> snd (parametric_cycloid_func (1/5) (1/2)) \<le> 1"
proof -
  have m: "(''Parametric Cycloid'',
      \<lparr>func = parametric_cycloid_func (1/5), color = ''#f59e0b'', time = 2.0 * (1 + 1/5)\<rparr>)
     \<in> set (curves (1/5))"
    by (simp add: curves_def)
  show ?thesis
    using m position_bounds [OF m, of "1/2"]
    by (simp add: parametric_cycloid_func_def)
qed

text \<open>
  C1 as stated fails: with the shape parameter \<open>E = 1\<close> the Parametric Cycloid is at height
  3/2 at progress 1/2, outside the unit square.
\<close>

theorem position_unit_square_counterexample:
  "func (the (curve_at 1 ''Parametric Cycloid'')) (1/2) = (1/2 - 1/pi, 3/2)
   \<and> \<not> snd (func (the (curve_at 1 ''Parametric Cycloid'')) (1/2)) \<le> 1"
  by (simp add: curve_at_def curves_def parametric_cycloid_func_def)

section \<open>What one call of the frame function changes\<close>

lemma run_finished_iff:
  "run_finished s ts \<longleftrightarrow>
     5/2 \<le> elapsedTime s ts \<and> 2 * (1 + cycloidParameter s) \<le> elapsedTime s ts"
  by (auto simp: run_finished_def reaches_max_def curves_def)

lemma init_refs_fields:
  "animationState (init_refs s ts) = animationState s"
  "animationSpeed (init_refs s ts) = animationSpeed s"
  "cycloidParameter (init_refs s ts) = cycloidParameter s"
  "elapsedTimes (init_refs s ts) = elapsedTimes s"
  "rankings (init_refs s ts) = rankings s"
  "prevRankings (init_refs s ts) = prevRankings s"
  "isAnimationComplete (init_refs s ts) = isAnimationComplete s"
  "pausedElapsedTime (init_refs s ts) = pausedElapsedTime s"
  "distanceToEnd (init_refs s ts) = distanceToEnd s"
  "animationFrameRequested (init_refs s ts) = animationFrameRequested s"
  "startTimeRef (init_refs s ts) = (case startTimeRef s of None \<Rightarrow> Some ts | Some t \<Rightarrow> Some t)"
  "lastTimestampRef (init_refs s ts) = (case startTimeRef s of None \<Rightarrow> Some ts | Some t \<Rightarrow> lastTimestampRef s)"
  by (simp_all add: init_refs_def split: option.split)

lemma drawFrame_animationState:
  "animationState (drawFrame s ts) = (if run_finished s ts then Idle else animationState s)"
  by (simp add: drawFrame_def Let_def init_refs_fields)

lemma drawFrame_isAnimationComplete:
  "isAnimationComplete (drawFrame s ts) = (run_finished s ts \<or> isAnimationComplete s)"
  by (simp add: drawFrame_def Let_def init_refs_fields)

lemma drawFrame_pausedElapsedTime:
  "pausedElapsedTime (drawFrame s ts) =
     (if \<not> run_finished s ts \<and> animationState s = Running then elapsedTime s ts
      else pausedElapsedTime s)"
  by (simp add: drawFrame_def Let_def init_refs_fields)

lemma drawFrame_animationFrameRequested:
  "animationFrameRequested (drawFrame s ts) =
     ((\<not> run_finished s ts \<and> animationState s = Running) \<or> animationFrameRequested s)"
  by (simp add: drawFrame_def Let_def init_refs_fields)

lemma drawFrame_animationSpeed: "animationSpeed (drawFrame s ts) = animationSpeed s"
  by (simp add: drawFrame_def Let_def init_refs_fields)

lemma drawFrame_cycloidParameter: "cycloidParameter (drawFrame s ts) = cycloidParameter s"
  by (simp add: drawFrame_def Let_def init_refs_fields)

lemma drawFrame_startTimeRef:
  "startTimeRef (drawFrame s ts) = (case startTimeRef s of None \<Rightarrow> Some ts | Some t \<Rightarrow> Some t)"
  by (simp add: drawFrame_def Let_def init_refs_fields)

lemma drawFrame_lastTimestampRef:
  "lastTimestampRef (drawFrame s ts) =
     (if animationState s = Running then Some ts
      else (case startTimeRef s of None \<Rightarrow> Some ts | Some t \<Rightarrow> lastTimestampRef s))"
  by (simp add: drawFrame_def Let_def init_refs_fields)

lemma drawFrame_rankings: "rankings (drawFrame s ts) = newRankings s ts"
  by (simp add: drawFrame_def Let_def init_refs_fields)

lemma drawFrame_prevRankings:
  "prevRankings (drawFrame s ts) =
     (if newRankings s ts \<noteq> rankings s then rankings s else prevRankings s)"
  by (simp add: drawFrame_def Let_def init_refs_fields)

lemma drawFrame_distanceToEnd:
  "distanceToEnd (drawFrame s ts) = newDistances (sortedProgressData s ts) (distanceToEnd s)"
  by (simp add: drawFrame_def Let_def init_refs_fields)

lemma drawFrame_elapsedTimes:
  "elapsedTimes (drawFrame s ts) =
     (if isAnimationComplete s
      then newTimes (cycloidParameter s) (sortedProgressData s ts) (elapsedTimes s)
      else elapsedTimes s)"
  by (simp add: drawFrame_def Let_def init_refs_fields)

lemmas drawFrame_fields =
  drawFrame_animationState drawFrame_isAnimationComplete drawFrame_pausedElapsedTime
  drawFrame_animationFrameRequested drawFrame_animationSpeed drawFrame_cycloidParameter
  drawFrame_startTimeRef drawFrame_lastTimestampRef drawFrame_rankings drawFrame_prevRankings
  drawFrame_distanceToEnd drawFrame_elapsedTimes

text \<open>The elapsed time and the finish test read only these fields.\<close>

lemma elapsedTime_cong:
  "animationState a = animationState b \<Longrightarrow> pausedElapsedTime a = pausedElapsedTime b \<Longrightarrow>
   animationSpeed a = animationSpeed b \<Longrightarrow> startTimeRef a = startTimeRef b \<Longrightarrow>
   lastTimestampRef a = lastTimestampRef b \<Longrightarrow> elapsedTime a ts = elapsedTime b ts"
  by (simp add: elapsedTime_def init_refs_def)

lemma elapsedTime_not_running:
  "animationState s \<noteq> Running \<Longrightarrow> elapsedTime s ts = pausedElapsedTime s"
  by (simp add: elapsedTime_def)

lemma elapsedTime_running:
  "animationState s = Running \<Longrightarrow>
   elapsedTime s ts =
     pausedElapsedTime s +
       (ts - (case startTimeRef s of None \<Rightarrow> ts
              | Some t \<Rightarrow> or_timestamp (lastTimestampRef s) ts)) / 1000 * animationSpeed s"
  by (simp add: elapsedTime_def init_refs_fields or_timestamp_def Let_def split: option.split)

lemma frame_fields:
  "animationState (frame s ts) = (if run_finished s ts then Idle else animationState s)"
  "pausedElapsedTime (frame s ts) =
     (if \<not> run_finished s ts \<and> animationState s = Running then elapsedTime s ts
      else pausedElapsedTime s)"
  "animationSpeed (frame s ts) = animationSpeed s"
  "cycloidParameter (frame s ts) = cycloidParameter s"
  "startTimeRef (frame s ts) = (case startTimeRef s of None \<Rightarrow> Some ts | Some t \<Rightarrow> Some t)"
  "lastTimestampRef (frame s ts) =
     (if animationState s = Running then Some ts
      else (case startTimeRef s of None \<Rightarrow> Some ts | Some t \<Rightarrow> lastTimestampRef s))"
  "animationFrameRequested (frame s ts) = (\<not> run_finished s ts \<and> animationState s = Running)"
  "isAnimationComplete (frame s ts) = (run_finished s ts \<or> isAnimationComplete s)"
  by (simp_all add: frame_def drawFrame_fields run_finished_iff
        elapsedTime_cong [of "s\<lparr>animationFrameRequested := False\<rparr>" s]
      split: option.split)

lemma not_finished_below_longest:
  "\<not> run_finished s ts \<longleftrightarrow>
     elapsedTime s ts < max (5/2) (2 * (1 + cycloidParameter s))"
  by (auto simp: run_finished_iff max_def)

lemma paused_redraws:
  assumes "animationState st = Paused"
    and "pausedElapsedTime st < max (5/2) (2 * (1 + cycloidParameter st))"
  shows "animationState (fold (\<lambda>t st. drawFrame st t) waits st) = Paused
       \<and> pausedElapsedTime (fold (\<lambda>t st. drawFrame st t) waits st) = pausedElapsedTime st
       \<and> animationSpeed (fold (\<lambda>t st. drawFrame st t) waits st) = animationSpeed st
       \<and> cycloidParameter (fold (\<lambda>t st. drawFrame st t) waits st) = cycloidParameter st"
  using assms
proof (induction waits arbitrary: st)
  case Nil
  then show ?case by simp
next
  case (Cons t waits)
  have nf: "\<not> run_finished st t"
    using Cons.prems by (simp add: not_finished_below_longest elapsedTime_not_running)
  have "animationState (drawFrame st t) = Paused"
    and "pausedElapsedTime (drawFrame st t) = pausedElapsedTime st"
    and "animationSpeed (drawFrame st t) = animationSpeed st"
    and "cycloidParameter (drawFrame st t) = cycloidParameter st"
    using Cons.prems nf by (simp_all add: drawFrame_fields)
  with Cons.IH [of "drawFrame st t"] Cons.prems(2) show ?case
    by simp
qed

lemma effect_not_running:
  "animationState s \<noteq> Running \<Longrightarrow> effect s now = drawFrame (s\<lparr>animationFrameRequested := False\<rparr>) now"
  by (simp add: effect_def Let_def)

lemma effect_running_fields:
  assumes "animationState s = Running"
  shows "animationState (effect s now) = Running"
    "pausedElapsedTime (effect s now) = pausedElapsedTime s"
    "animationSpeed (effect s now) = animationSpeed s"
    "cycloidParameter (effect s now) = cycloidParameter s"
    "startTimeRef (effect s now) = startTimeRef s"
    "lastTimestampRef (effect s now) = lastTimestampRef s"
    "animationFrameRequested (effect s now)"
    "isAnimationComplete (effect s now) = isAnimationComplete s"
    "rankings (effect s now) = rankings s"
    "prevRankings (effect s now) = prevRankings s"
    "elapsedTimes (effect s now) = elapsedTimes s"
    "distanceToEnd (effect s now) = distanceToEnd s"
  using assms by (simp_all add: effect_def Let_def)

lemma pause_wait_resume_fields:
  assumes "pausedElapsedTime s < max (5/2) (2 * (1 + cycloidParameter s))"
  shows "animationState (pause_wait_resume s now waits now') = Running"
    and "pausedElapsedTime (pause_wait_resume s now waits now') = pausedElapsedTime s"
    and "animationSpeed (pause_wait_resume s now waits now') = animationSpeed s"
    and "cycloidParameter (pause_wait_resume s now waits now') = cycloidParameter s"
    and "lastTimestampRef (pause_wait_resume s now waits now') = None"
    and "animationFrameRequested (pause_wait_resume s now waits now')"
proof -
  define p where "p = effect (handlePauseAnimation s) now"
  have p_eq: "p = drawFrame (handlePauseAnimation s\<lparr>animationFrameRequested := False\<rparr>) now"
    by (simp add: p_def effect_not_running handlePauseAnimation_def)
  have nf: "\<not> run_finished (handlePauseAnimation s\<lparr>animationFrameRequested := False\<rparr>) now"
    using assms
    by (simp add: not_finished_below_longest elapsedTime_not_running handlePauseAnimation_def)
  have p1: "animationState p = Paused" "pausedElapsedTime p = pausedElapsedTime s"
    "animationSpeed p = animationSpeed s" "cycloidParameter p = cycloidParameter s"
    using nf by (simp_all add: p_eq drawFrame_fields) (simp_all add: handlePauseAnimation_def)
  define w where "w = fold (\<lambda>t st. drawFrame st t) waits p"
  have w1: "animationState w = Paused" "pausedElapsedTime w = pausedElapsedTime s"
    "animationSpeed w = animationSpeed s" "cycloidParameter w = cycloidParameter s"
    using paused_redraws [of p waits] p1 assms by (simp_all add: w_def)
  have r: "pause_wait_resume s now waits now' = effect (handleResumeAnimation w) now'"
    by (simp add: pause_wait_resume_def w_def p_def)
  have run: "animationState (handleResumeAnimation w) = Running"
    by (simp add: handleResumeAnimation_def)
  show "animationState (pause_wait_resume s now waits now') = Running"
    and "pausedElapsedTime (pause_wait_resume s now waits now') = pausedElapsedTime s"
    and "animationSpeed (pause_wait_resume s now waits now') = animationSpeed s"
    and "cycloidParameter (pause_wait_resume s now waits now') = cycloidParameter s"
    and "lastTimestampRef (pause_wait_resume s now waits now') = None"
    and "animationFrameRequested (pause_wait_resume s now waits now')"
    using w1 by (simp_all add: r effect_running_fields [OF run]) (simp_all add: handleResumeAnimation_def)
qed

lemma idle_redraw:
  assumes "animationState s = Idle" and "pausedElapsedTime s < 5/2"
  shows "animationState (effect s now) = Idle"
    and "pausedElapsedTime (effect s now) = pausedElapsedTime s"
    and "animationSpeed (effect s now) = animationSpeed s"
    and "cycloidParameter (effect s now) = cycloidParameter s"
    and "isAnimationComplete (effect s now) = isAnimationComplete s"
    and "\<not> animationFrameRequested (effect s now)"
proof -
  have e: "effect s now = drawFrame (s\<lparr>animationFrameRequested := False\<rparr>) now"
    using assms(1) by (simp add: effect_not_running)
  have nf: "\<not> run_finished (s\<lparr>animationFrameRequested := False\<rparr>) now"
    using assms by (simp add: run_finished_iff elapsedTime_not_running)
  show "animationState (effect s now) = Idle"
    and "pausedElapsedTime (effect s now) = pausedElapsedTime s"
    and "animationSpeed (effect s now) = animationSpeed s"
    and "cycloidParameter (effect s now) = cycloidParameter s"
    and "isAnimationComplete (effect s now) = isAnimationComplete s"
    and "\<not> animationFrameRequested (effect s now)"
    using assms(1) nf by (simp_all add: e drawFrame_fields)
qed

lemma mounted_fields:
  "animationState mounted = Idle" "pausedElapsedTime mounted = 0"
  "cycloidParameter mounted = 1/5" "isAnimationComplete mounted = False"
  "animationFrameRequested mounted = False"
  by (simp_all add: mounted_def effect_def Let_def drawFrame_fields run_finished_iff
        elapsedTime_not_running initial_state_def)

lemma speed_one_fields:
  "animationState speed_one = Idle" "pausedElapsedTime speed_one = 0"
  "animationSpeed speed_one = 1" "cycloidParameter speed_one = 1/5"
  "isAnimationComplete speed_one = False"
proof -
  have a: "animationState (setAnimationSpeed 1 mounted) = Idle"
    and b: "pausedElapsedTime (setAnimationSpeed 1 mounted) < 5/2"
    by (simp_all add: setAnimationSpeed_def mounted_fields)
  show "animationState speed_one = Idle" "pausedElapsedTime speed_one = 0"
    "animationSpeed speed_one = 1" "cycloidParameter speed_one = 1/5"
    "isAnimationComplete speed_one = False"
    unfolding speed_one_def
    by (simp_all add: idle_redraw [OF a b]) (simp_all add: setAnimationSpeed_def mounted_fields)
qed

lemma started_at_speed_one_fields:
  "animationState started_at_speed_one = Running"
  "pausedElapsedTime started_at_speed_one = 0"
  "animationSpeed started_at_speed_one = 1"
  "cycloidParameter started_at_speed_one = 1/5"
  "startTimeRef started_at_speed_one = None"
  "lastTimestampRef started_at_speed_one = None"
  "isAnimationComplete started_at_speed_one = False"
  "animationFrameRequested started_at_speed_one"
  by (simp_all add: started_at_speed_one_def effect_def Let_def handleStartAnimation_def
        speed_one_fields)

lemma running_frame:
  assumes "animationState s = Running" and "elapsedTime s ts < 5/2"
  shows "animationState (frame s ts) = Running"
    and "pausedElapsedTime (frame s ts) = elapsedTime s ts"
    and "animationSpeed (frame s ts) = animationSpeed s"
    and "cycloidParameter (frame s ts) = cycloidParameter s"
    and "startTimeRef (frame s ts) = (case startTimeRef s of None \<Rightarrow> Some ts | Some t \<Rightarrow> Some t)"
    and "lastTimestampRef (frame s ts) = Some ts"
    and "isAnimationComplete (frame s ts) = isAnimationComplete s"
    and "animationFrameRequested (frame s ts)"
proof -
  have nf: "\<not> run_finished s ts"
    using assms(2) by (simp add: run_finished_iff)
  show "animationState (frame s ts) = Running"
    and "pausedElapsedTime (frame s ts) = elapsedTime s ts"
    and "animationSpeed (frame s ts) = animationSpeed s"
    and "cycloidParameter (frame s ts) = cycloidParameter s"
    and "startTimeRef (frame s ts) = (case startTimeRef s of None \<Rightarrow> Some ts | Some t \<Rightarrow> Some t)"
    and "lastTimestampRef (frame s ts) = Some ts"
    and "isAnimationComplete (frame s ts) = isAnimationComplete s"
    and "animationFrameRequested (frame s ts)"
    using assms(1) nf by (simp_all only: frame_fields if_True if_False simp_thms)
qed

lemma first_frame_fields:
  "animationState (frame started_at_speed_one 1000) = Running"
  "pausedElapsedTime (frame started_at_speed_one 1000) = 0"
  "animationSpeed (frame started_at_speed_one 1000) = 1"
  "cycloidParameter (frame started_at_speed_one 1000) = 1/5"
  "startTimeRef (frame started_at_speed_one 1000) = Some 1000"
  "lastTimestampRef (frame started_at_speed_one 1000) = Some 1000"
  "isAnimationComplete (frame started_at_speed_one 1000) = False"
  "animationFrameRequested (frame started_at_speed_one 1000)"
proof -
  have e: "elapsedTime started_at_speed_one 1000 = 0"
    by (simp add: elapsedTime_running started_at_speed_one_fields)
  have lt: "elapsedTime started_at_speed_one 1000 < 5/2"
    by (simp add: e)
  note f = running_frame [OF started_at_speed_one_fields(1) lt]
  show "animationState (frame started_at_speed_one 1000) = Running"
    "pausedElapsedTime (frame started_at_speed_one 1000) = 0"
    "animationSpeed (frame started_at_speed_one 1000) = 1"
    "cycloidParameter (frame started_at_speed_one 1000) = 1/5"
    "startTimeRef (frame started_at_speed_one 1000) = Some 1000"
    "lastTimestampRef (frame started_at_speed_one 1000) = Some 1000"
    "isAnimationComplete (frame started_at_speed_one 1000) = False"
    "animationFrameRequested (frame started_at_speed_one 1000)"
    by (simp_all add: f e started_at_speed_one_fields)
qed

lemma one_second_in_fields:
  "animationState one_second_in = Running"
  "pausedElapsedTime one_second_in = 1"
  "animationSpeed one_second_in = 1"
  "cycloidParameter one_second_in = 1/5"
  "startTimeRef one_second_in = Some 1000"
  "lastTimestampRef one_second_in = Some 2000"
  "isAnimationComplete one_second_in = False"
  "animationFrameRequested one_second_in"
proof -
  have e: "elapsedTime (frame started_at_speed_one 1000) 2000 = 1"
    by (simp add: elapsedTime_running first_frame_fields or_timestamp_def)
  have lt: "elapsedTime (frame started_at_speed_one 1000) 2000 < 5/2"
    by (simp add: e)
  note f = running_frame [OF first_frame_fields(1) lt, folded one_second_in_def]
  show "animationState one_second_in = Running"
    "pausedElapsedTime one_second_in = 1"
    "animationSpeed one_second_in = 1"
    "cycloidParameter one_second_in = 1/5"
    "startTimeRef one_second_in = Some 1000"
    "lastTimestampRef one_second_in = Some 2000"
    "isAnimationComplete one_second_in = False"
    "animationFrameRequested one_second_in"
    by (simp_all add: f e first_frame_fields)
qed

section \<open>The clock across pause and resume\<close>

text \<open>
  C3. From a running state (frame timestamps are positive, as the clock of
  \<open>requestAnimationFrame\<close> is): pause, any redraws while paused at any clock readings,
  and resume leave the elapsed time where it was at the pause; the first frame after the
  resume adds nothing, and a following frame \<open>d\<close> milliseconds later adds exactly
  \<open>d / 1000 * animationSpeed\<close>. This holds for the whole length of the run, that is as
  long as the elapsed time stays below the largest curve time, the larger of 2.5 and
  \<open>2 * (1 + cycloidParameter)\<close>. In the run of the witness: start, one second of frames
  at speed 1, pause, wait, resume, a frame, and a frame 500 ms later give the elapsed
  time 1.5.
\<close>

theorem pause_resume_continuous:
  assumes "animationState s = Running"
    and "0 \<le> d" and "0 < animationSpeed s"
    and "pausedElapsedTime s + d / 1000 * animationSpeed s
           < max (5/2) (2 * (1 + cycloidParameter s))"
    and "0 < t1"
  shows "pausedElapsedTime (pause_wait_resume s now waits now') = pausedElapsedTime s
       \<and> pausedElapsedTime (frame (pause_wait_resume s now waits now') t1) = pausedElapsedTime s
       \<and> pausedElapsedTime (frame (frame (pause_wait_resume s now waits now') t1) (t1 + d))
           = pausedElapsedTime s + d / 1000 * animationSpeed s"
proof -
  have "0 \<le> d / 1000 * animationSpeed s"
    using assms(2,3) by simp
  then have lt: "pausedElapsedTime s < max (5/2) (2 * (1 + cycloidParameter s))"
    using assms(4) by linarith
  define r where "r = pause_wait_resume s now waits now'"
  note rf = pause_wait_resume_fields [OF lt, of now waits now', folded r_def]
  have e1: "elapsedTime r t1 = pausedElapsedTime s"
    using rf by (simp add: elapsedTime_running or_timestamp_def split: option.split)
  have nf1: "\<not> run_finished r t1"
    using lt by (simp add: not_finished_below_longest e1 rf(4))
  define f where "f = frame r t1"
  have f1: "animationState f = Running" "pausedElapsedTime f = pausedElapsedTime s"
    "animationSpeed f = animationSpeed s" "lastTimestampRef f = Some t1"
    "startTimeRef f \<noteq> None" "cycloidParameter f = cycloidParameter s"
    using rf nf1 e1 by (simp_all add: f_def frame_fields split: option.split)
  have e2: "elapsedTime f (t1 + d) = pausedElapsedTime s + d / 1000 * animationSpeed s"
    using f1 assms(5) by (auto simp: elapsedTime_running or_timestamp_def split: option.split)
  have nf2: "\<not> run_finished f (t1 + d)"
    using assms(4) by (simp add: not_finished_below_longest e2 f1(6))
  have "pausedElapsedTime (frame f (t1 + d)) = pausedElapsedTime s + d / 1000 * animationSpeed s"
    using f1 nf2 e2 by (simp add: frame_fields)
  then show ?thesis
    using rf(2) f1(2) by (simp add: r_def f_def)
qed

theorem pause_resume_continuous_witness:
  "animationState one_second_in = Running
   \<and> animationSpeed one_second_in = 1
   \<and> pausedElapsedTime one_second_in = 1
   \<and> pausedElapsedTime (pause_wait_resume one_second_in 2500 [3000, 60000] 90000) = 1
   \<and> pausedElapsedTime (frame (pause_wait_resume one_second_in 2500 [3000, 60000] 90000) 90010) = 1
   \<and> pausedElapsedTime
        (frame (frame (pause_wait_resume one_second_in 2500 [3000, 60000] 90000) 90010)
           (90010 + 500)) = 3/2"
  using pause_resume_continuous [of one_second_in 500 90010 2500 "[3000, 60000]" 90000]
  by (simp add: one_second_in_fields)

section \<open>Frame timestamps that go backward\<close>

text \<open>
  C7, as amended. A running frame whose refs hold a last timestamp \<open>l\<close> (not 0) and that
  does not finish the run sets the elapsed time to the old one plus
  \<open>(timestamp - l) / 1000 * animationSpeed\<close>, with no clamping: at a positive speed the
  elapsed time decreases exactly when the timestamp is earlier than \<open>l\<close>.
\<close>

theorem running_frame_delta_not_clamped:
  assumes "animationState s = Running" and "startTimeRef s \<noteq> None"
    and "lastTimestampRef s = Some l" and "l \<noteq> 0" and "\<not> run_finished s ts"
  shows "pausedElapsedTime (drawFrame s ts)
           = pausedElapsedTime s + (ts - l) / 1000 * animationSpeed s
       \<and> (0 < animationSpeed s \<longrightarrow>
            (pausedElapsedTime (drawFrame s ts) < pausedElapsedTime s \<longleftrightarrow> ts < l))"
proof -
  have e: "elapsedTime s ts = pausedElapsedTime s + (ts - l) / 1000 * animationSpeed s"
    using assms(1-4) by (auto simp: elapsedTime_running or_timestamp_def)
  have p: "pausedElapsedTime (drawFrame s ts) = elapsedTime s ts"
    using assms(1,5) by (simp add: drawFrame_fields)
  have "(ts - l) / 1000 * animationSpeed s < 0 \<longleftrightarrow> ts < l" if "0 < animationSpeed s"
    using that by (simp add: mult_less_0_iff)
  then show ?thesis
    unfolding p e by auto
qed

theorem running_frame_delta_not_clamped_witness:
  "animationState one_second_in = Running \<and> startTimeRef one_second_in \<noteq> None
   \<and> lastTimestampRef one_second_in = Some 2000 \<and> \<not> run_finished one_second_in 1200
   \<and> 0 < animationSpeed one_second_in
   \<and> pausedElapsedTime one_second_in = 1
   \<and> pausedElapsedTime (drawFrame one_second_in 1200) = 1/5"
proof -
  have nf: "\<not> run_finished one_second_in 1200"
    by (simp add: run_finished_iff elapsedTime_running one_second_in_fields or_timestamp_def)
  show ?thesis
    using nf running_frame_delta_not_clamped [of one_second_in 2000 1200]
    by (simp add: one_second_in_fields)
qed

text \<open>
  C7 as stated fails: one second into a run whose last frame was at 2000 ms, a frame
  stamped 1500 ms takes the elapsed time from 1 s back to 0.5 s.
\<close>

theorem stale_timestamp_counterexample:
  "animationState one_second_in = Running
   \<and> lastTimestampRef one_second_in = Some 2000
   \<and> pausedElapsedTime one_second_in = 1
   \<and> pausedElapsedTime (frame one_second_in 1500) = 1/2"
  by (simp add: frame_fields one_second_in_fields run_finished_iff elapsedTime_running
        or_timestamp_def)

section \<open>The sort\<close>

lemma set_insert_sorted: "set (insert_sorted cmp a bs) = insert a (set bs)"
  by (induction bs) auto

lemma set_array_sort: "set (array_sort cmp xs) = set xs"
  by (induction xs) (simp_all add: set_insert_sorted)

lemma length_insert_sorted: "length (insert_sorted cmp a bs) = Suc (length bs)"
  by (induction bs) auto

lemma length_array_sort: "length (array_sort cmp xs) = length xs"
  by (induction xs) (simp_all add: length_insert_sorted)

lemma distinct_insert_sorted:
  "distinct (map f (insert_sorted cmp a bs)) \<longleftrightarrow> f a \<notin> f ` set bs \<and> distinct (map f bs)"
  by (induction bs) (auto simp: set_insert_sorted)

lemma distinct_array_sort: "distinct (map f (array_sort cmp xs)) \<longleftrightarrow> distinct (map f xs)"
  by (induction xs) (simp_all add: distinct_insert_sorted set_array_sort)

lemma sorted_insert_by_distance:
  "sorted (map (\<lambda>e. snd (snd e)) bs) \<Longrightarrow>
   sorted (map (\<lambda>e. snd (snd e)) (insert_sorted by_distance a bs))"
  by (induction bs) (auto simp: by_distance_def set_insert_sorted)

lemma sorted_array_sort_by_distance:
  "sorted (map (\<lambda>e. snd (snd e)) (array_sort by_distance xs))"
  by (induction xs) (simp_all add: sorted_insert_by_distance)

lemma filter_insert_other:
  "\<not> P a \<Longrightarrow> filter P (insert_sorted cmp a bs) = filter P bs"
  by (induction bs) auto

lemma filter_insert_same_distance:
  "sorted (map (\<lambda>e. snd (snd e)) bs) \<Longrightarrow> snd (snd a) = k \<Longrightarrow>
   filter (\<lambda>e. snd (snd e) = k) (insert_sorted by_distance a bs)
     = a # filter (\<lambda>e. snd (snd e) = k) bs"
proof (induction bs)
  case Nil
  then show ?case by simp
next
  case (Cons b bs)
  show ?case
  proof (cases "by_distance a b \<le> 0")
    case True
    then show ?thesis using Cons.prems by simp
  next
    case False
    then have "snd (snd b) < k"
      using Cons.prems(2) by (simp add: by_distance_def)
    then have "snd (snd b) \<noteq> k" by simp
    moreover have "sorted (map (\<lambda>e. snd (snd e)) bs)"
      using Cons.prems(1) by simp
    ultimately show ?thesis
      using False Cons.IH Cons.prems(2) by simp
  qed
qed

lemma array_sort_stable:
  "filter (\<lambda>e. snd (snd e) = k) (array_sort by_distance xs) = filter (\<lambda>e. snd (snd e) = k) xs"
proof (induction xs)
  case Nil
  then show ?case by simp
next
  case (Cons a xs)
  show ?case
  proof (cases "snd (snd a) = k")
    case True
    then show ?thesis
      using Cons.IH sorted_array_sort_by_distance [of xs]
      by (simp add: filter_insert_same_distance)
  next
    case False
    then show ?thesis
      using Cons.IH by (simp add: filter_insert_other)
  qed
qed

lemma labels_progressData: "map fst (progressData cs e) = map fst cs"
  by (induction cs) (auto simp: progressData_def Let_def)

lemma labels_curves: "map fst (curves E) = curve_order"
  by (simp add: curves_def curve_order_def)

text \<open>
  C2, as amended. In each call of the frame function the published ranking lists the
  labels of the progress data sorted ascending by distance, and the entries of any one
  distance \<open>k\<close> stand in the order they have in the unsorted progress data, which is the fixed
  order of the curve set (Brachistochrone, Straight Line, Parabola, Parametric Cycloid).
  The previous ranking has no part in the order.
\<close>

theorem rankings_sorted_ties_in_curve_order:
  "rankings (drawFrame s ts) = map fst (sortedProgressData s ts)
   \<and> sorted (map (\<lambda>e. snd (snd e)) (sortedProgressData s ts))
   \<and> filter (\<lambda>e. snd (snd e) = k) (sortedProgressData s ts)
        = filter (\<lambda>e. snd (snd e) = k)
            (progressData (curves (cycloidParameter s)) (elapsedTime s ts))
   \<and> map fst (progressData (curves (cycloidParameter s)) (elapsedTime s ts)) = curve_order"
  by (simp add: drawFrame_rankings newRankings_def sortedProgressData_def
        sorted_array_sort_by_distance array_sort_stable labels_progressData labels_curves)

section \<open>Progress data at particular elapsed times\<close>

lemma progressData_at_zero:
  "progressData (curves E) 0 =
     [(''Brachistochrone'', 0, sqrt 2), (''Straight Line'', 0, sqrt 2),
      (''Parabola'', 0, sqrt 2), (''Parametric Cycloid'', 0, sqrt 2)]"
  by (simp add: progressData_def curves_def progress_of_def distance_of_def Let_def
        brachistochrone_func_def straight_line_func_def parabola_func_def
        parametric_cycloid_func_def)

lemma sorted_at_zero:
  "array_sort by_distance (progressData (curves E) 0) = progressData (curves E) 0"
  by (simp add: progressData_at_zero by_distance_def)

lemma newRankings_at_zero:
  "elapsedTime s ts = 0 \<Longrightarrow> newRankings s ts = curve_order"
  by (simp add: newRankings_def sortedProgressData_def sorted_at_zero)
     (simp add: progressData_at_zero curve_order_def)

section \<open>The mounted component\<close>

lemma mounted_rankings:
  "rankings mounted = curve_order" "prevRankings mounted = []"
  "elapsedTimes mounted = Map.empty"
  by (simp_all add: mounted_def effect_def Let_def drawFrame_fields newRankings_at_zero
        elapsedTime_not_running initial_state_def curve_order_def)

lemma race_tuned_fields:
  "animationState race_tuned = Idle" "pausedElapsedTime race_tuned = 0"
  "animationSpeed race_tuned = 1" "cycloidParameter race_tuned = 0"
proof -
  have a: "animationState (setCycloidParameter 0 speed_one) = Idle"
    and b: "pausedElapsedTime (setCycloidParameter 0 speed_one) < 5/2"
    by (simp_all add: setCycloidParameter_def speed_one_fields)
  show "animationState race_tuned = Idle" "pausedElapsedTime race_tuned = 0"
    "animationSpeed race_tuned = 1" "cycloidParameter race_tuned = 0"
    unfolding race_tuned_def
    by (simp_all add: idle_redraw [OF a b]) (simp_all add: setCycloidParameter_def speed_one_fields)
qed

lemma race_started_fields:
  "animationState race_started = Running"
  "pausedElapsedTime race_started = 0"
  "animationSpeed race_started = 1"
  "cycloidParameter race_started = 0"
  "startTimeRef race_started = None"
  "lastTimestampRef race_started = None"
  "isAnimationComplete race_started = False"
  by (simp_all add: race_started_def effect_def Let_def handleStartAnimation_def
        race_tuned_fields)

lemma race_first_fields:
  "animationState race_first = Running"
  "pausedElapsedTime race_first = 0"
  "animationSpeed race_first = 1"
  "cycloidParameter race_first = 0"
  "startTimeRef race_first = Some 1000"
  "lastTimestampRef race_first = Some 1000"
  "isAnimationComplete race_first = False"
proof -
  have e: "elapsedTime race_started 1000 = 0"
    by (simp add: elapsedTime_running race_started_fields)
  have lt: "elapsedTime race_started 1000 < 5/2"
    by (simp add: e)
  note f = running_frame [OF race_started_fields(1) lt, folded race_first_def]
  show "animationState race_first = Running"
    "pausedElapsedTime race_first = 0"
    "animationSpeed race_first = 1"
    "cycloidParameter race_first = 0"
    "startTimeRef race_first = Some 1000"
    "lastTimestampRef race_first = Some 1000"
    "isAnimationComplete race_first = False"
    by (simp_all add: f e race_started_fields)
qed

lemma race_late_elapsed: "elapsedTime race_first 3100 = 21/10"
  by (simp add: elapsedTime_running race_first_fields or_timestamp_def)

lemma race_late_fields:
  "animationState race_late = Running"
  "pausedElapsedTime race_late = 21/10"
  "animationSpeed race_late = 1"
  "cycloidParameter race_late = 0"
  "startTimeRef race_late = Some 1000"
  "lastTimestampRef race_late = Some 3100"
  "isAnimationComplete race_late = False"
proof -
  have lt: "elapsedTime race_first 3100 < 5/2"
    by (simp add: race_late_elapsed)
  note f = running_frame [OF race_first_fields(1) lt, folded race_late_def]
  show "animationState race_late = Running"
    "pausedElapsedTime race_late = 21/10"
    "animationSpeed race_late = 1"
    "cycloidParameter race_late = 0"
    "startTimeRef race_late = Some 1000"
    "lastTimestampRef race_late = Some 3100"
    "isAnimationComplete race_late = False"
    by (simp_all add: f race_late_elapsed race_first_fields)
qed

lemma race_done_elapsed: "elapsedTime race_late 3500 = 5/2"
  by (simp add: elapsedTime_running race_late_fields or_timestamp_def)

lemma race_done_finished: "run_finished race_late 3500"
  by (simp add: run_finished_iff race_done_elapsed race_late_fields)

lemma progressData_late:
  "progressData (curves 0) (21/10) =
     [(''Brachistochrone'', 1, 0), (''Straight Line'', 21/25, sqrt (32/625)),
      (''Parabola'', 1, 0), (''Parametric Cycloid'', 1, 0)]"
  by (simp add: progressData_def curves_def progress_of_def distance_of_def Let_def
        brachistochrone_func_def straight_line_func_def parabola_func_def
        parametric_cycloid_func_def power2_eq_square)

lemma progressData_done:
  "progressData (curves 0) (5/2) =
     [(''Brachistochrone'', 1, 0), (''Straight Line'', 1, 0),
      (''Parabola'', 1, 0), (''Parametric Cycloid'', 1, 0)]"
  by (simp add: progressData_def curves_def progress_of_def distance_of_def Let_def
        brachistochrone_func_def straight_line_func_def parabola_func_def
        parametric_cycloid_func_def)

lemma sorted_late:
  "array_sort by_distance (progressData (curves 0) (21/10)) =
     [(''Brachistochrone'', 1, 0), (''Parabola'', 1, 0), (''Parametric Cycloid'', 1, 0),
      (''Straight Line'', 21/25, sqrt (32/625))]"
  by (simp add: progressData_late by_distance_def)

lemma sorted_done:
  "array_sort by_distance (progressData (curves 0) (5/2)) = progressData (curves 0) (5/2)"
  by (simp add: progressData_done by_distance_def)

lemma race_late_rankings:
  "rankings race_late = [''Brachistochrone'', ''Parabola'', ''Parametric Cycloid'', ''Straight Line'']"
  by (simp add: race_late_def frame_def drawFrame_rankings newRankings_def sortedProgressData_def
        elapsedTime_cong [of "race_first\<lparr>animationFrameRequested := False\<rparr>" race_first]
        race_late_elapsed race_first_fields sorted_late)

lemma race_done_sorted:
  "sortedProgressData (race_late\<lparr>animationFrameRequested := False\<rparr>) 3500
     = progressData (curves 0) (5/2)"
  by (simp add: sortedProgressData_def
        elapsedTime_cong [of "race_late\<lparr>animationFrameRequested := False\<rparr>" race_late]
        race_done_elapsed race_late_fields sorted_done)

lemma race_done_rankings:
  "rankings race_done = curve_order"
  "prevRankings race_done = [''Brachistochrone'', ''Parabola'', ''Parametric Cycloid'', ''Straight Line'']"
  "distanceToEnd race_done ''Straight Line'' = Some 0"
  "distanceToEnd race_done ''Parabola'' = Some 0"
  by (simp_all add: race_done_def frame_def drawFrame_fields newRankings_def race_done_sorted
        race_late_rankings newDistances_def)
     (simp_all add: progressData_done curve_order_def)

text \<open>
  C2 as stated fails. In the race with shape parameter 0 the ranking published at 2.1 s has
  Parabola (finished, distance 0) ahead of Straight Line (still on its way). The next frame,
  at 2.5 s, computes distance 0 for both, and publishes Straight Line ahead of Parabola:
  the two tied curves swap places against the previous ranking.
\<close>

theorem tie_order_counterexample:
  "rankings race_late = [''Brachistochrone'', ''Parabola'', ''Parametric Cycloid'', ''Straight Line'']
   \<and> race_done = frame race_late 3500
   \<and> distanceToEnd race_done ''Straight Line'' = Some 0
   \<and> distanceToEnd race_done ''Parabola'' = Some 0
   \<and> rankings race_done = [''Brachistochrone'', ''Straight Line'', ''Parabola'', ''Parametric Cycloid'']"
  by (intro conjI)
     (rule race_late_rankings race_done_def race_done_rankings(3,4)
        race_done_rankings(1) [unfolded curve_order_def])+

section \<open>The rank indicator\<close>

lemma indexOf_ge: "- 1 \<le> indexOf xs x"
  by (induction xs) (auto simp: Let_def)

lemma indexOf_absent: "x \<notin> set xs \<Longrightarrow> indexOf xs x = - 1"
  by (induction xs) (auto simp: Let_def)

lemma indexOf_present: "x \<in> set xs \<Longrightarrow> 0 \<le> indexOf xs x"
  by (induction xs) (auto simp: Let_def)

lemma indexOf_nth: "distinct xs \<Longrightarrow> i < length xs \<Longrightarrow> indexOf xs (xs ! i) = int i"
proof (induction xs arbitrary: i)
  case Nil
  then show ?case by simp
next
  case (Cons y ys)
  show ?case
  proof (cases i)
    case 0
    then show ?thesis by simp
  next
    case (Suc j)
    then have "j < length ys" and "ys ! j \<noteq> y"
      using Cons.prems by auto
    moreover have "indexOf ys (ys ! j) = int j"
      using Cons.IH [of j] Cons.prems Suc by simp
    ultimately show ?thesis
      using Suc by (simp add: Let_def)
  qed
qed

text \<open>
  C6, as amended. For the row that the display renders for \<open>label\<close> at position \<open>i\<close> of the
  rankings (whose labels are distinct, so \<open>i\<close> is \<open>rankings.indexOf(label)\<close>), with the
  rank delta \<open>prevRankings.indexOf(label) - rankings.indexOf(label)\<close>: once the run is
  complete no indicator is shown; otherwise a positive delta shows the up indicator, a
  negative delta the down indicator and a zero delta none. A label that is not found in
  the previous rankings has \<open>indexOf\<close> \<open>-1\<close>, hence a negative delta, and shows the down
  indicator.
\<close>

theorem rank_indicator_by_delta:
  assumes "distinct (rankings s)" and "i < length (rankings s)" and "label = rankings s ! i"
  shows "indexOf (rankings s) label = int i
       \<and> rank_indicator s label i =
           (if isAnimationComplete s then NoIndicator
            else if 0 < indexOf (prevRankings s) label - indexOf (rankings s) label then Up
            else if indexOf (prevRankings s) label - indexOf (rankings s) label < 0 then Down
            else NoIndicator)
       \<and> (label \<notin> set (prevRankings s) \<and> \<not> isAnimationComplete s
            \<longrightarrow> rank_indicator s label i = Down)"
proof -
  have ix: "indexOf (rankings s) label = int i"
    using assms by (simp add: indexOf_nth)
  have "indexOf (prevRankings s) label = - 1" if "label \<notin> set (prevRankings s)"
    using that by (rule indexOf_absent)
  then show ?thesis
    unfolding ix by (auto simp: rank_indicator_def)
qed

lemma distinct_newRankings: "distinct (newRankings s ts)"
  by (simp add: newRankings_def sortedProgressData_def distinct_array_sort
        labels_progressData labels_curves curve_order_def)

theorem rank_indicator_by_delta_witness:
  "distinct (rankings mounted) \<and> 1 < length (rankings mounted)
   \<and> ''Straight Line'' = rankings mounted ! 1
   \<and> ''Straight Line'' \<notin> set (prevRankings mounted) \<and> \<not> isAnimationComplete mounted
   \<and> indexOf (rankings mounted) ''Straight Line'' = 1
   \<and> rank_indicator mounted ''Straight Line'' 1 = Down"
proof -
  have h1: "distinct (rankings mounted)"
    by (simp add: mounted_rankings curve_order_def)
  have h2: "1 < length (rankings mounted)"
    by (simp add: mounted_rankings curve_order_def)
  have h3: "''Straight Line'' = rankings mounted ! 1"
    by (simp add: mounted_rankings curve_order_def)
  have h4: "''Straight Line'' \<notin> set (prevRankings mounted) \<and> \<not> isAnimationComplete mounted"
    by (simp add: mounted_rankings mounted_fields)
  note r = rank_indicator_by_delta [OF h1 h2 h3]
  have c1: "indexOf (rankings mounted) ''Straight Line'' = 1"
    using conjunct1 [OF r] by simp
  have c2: "rank_indicator mounted ''Straight Line'' 1 = Down"
    using conjunct2 [OF conjunct2 [OF r]] h4 by blast
  show ?thesis
    using h1 h2 h3 h4 c1 c2 by blast
qed


text \<open>
  C6 as stated fails: on the mounted component the previous rankings are empty, so no
  label is found in them, and the row of Brachistochrone shows the down indicator.
\<close>

theorem label_not_found_counterexample:
  "rankings mounted = [''Brachistochrone'', ''Straight Line'', ''Parabola'', ''Parametric Cycloid'']
   \<and> prevRankings mounted = []
   \<and> indexOf (prevRankings mounted) ''Brachistochrone'' = - 1
   \<and> rank_indicator mounted ''Brachistochrone'' 0 = Down"
  by (simp add: mounted_rankings mounted_fields curve_order_def rank_indicator_def)

section \<open>Reset\<close>

text \<open>
  C8, as amended. The reset handler, from any state, sets the phase to Idle, zeroes the
  elapsed time, clears both timestamp refs and empties the frozen times; it leaves the
  rankings, the previous rankings and the distances as they were. The run of the effect
  that follows cancels the pending frame and requests none, stays Idle at elapsed time 0,
  and publishes the ranking computed at elapsed time 0 (the curve order) instead of an
  empty one.
\<close>

theorem reset_keeps_rankings:
  "animationState (handleResetAnimation s) = Idle
   \<and> pausedElapsedTime (handleResetAnimation s) = 0
   \<and> startTimeRef (handleResetAnimation s) = None
   \<and> lastTimestampRef (handleResetAnimation s) = None
   \<and> elapsedTimes (handleResetAnimation s) = Map.empty
   \<and> rankings (handleResetAnimation s) = rankings s
   \<and> prevRankings (handleResetAnimation s) = prevRankings s
   \<and> distanceToEnd (handleResetAnimation s) = distanceToEnd s
   \<and> \<not> animationFrameRequested (effect (handleResetAnimation s) now)
   \<and> animationState (effect (handleResetAnimation s) now) = Idle
   \<and> pausedElapsedTime (effect (handleResetAnimation s) now) = 0
   \<and> rankings (effect (handleResetAnimation s) now) = curve_order"
proof -
  have a: "animationState (handleResetAnimation s) = Idle"
    and b: "pausedElapsedTime (handleResetAnimation s) < 5/2"
    by (simp_all add: handleResetAnimation_def)
  note r = idle_redraw [OF a b, of now]
  have e: "elapsedTime (handleResetAnimation s\<lparr>animationFrameRequested := False\<rparr>) now = 0"
    by (simp add: elapsedTime_not_running handleResetAnimation_def)
  have k: "rankings (effect (handleResetAnimation s) now) = curve_order"
    using a by (simp add: effect_not_running drawFrame_rankings newRankings_at_zero [OF e])
  show ?thesis
    using r k by (simp add: handleResetAnimation_def)
qed

lemma started_from_mounted:
  "rankings (handleResetAnimation (effect (handleStartAnimation mounted) 500)) = curve_order"
  "distanceToEnd (handleResetAnimation (effect (handleStartAnimation mounted) 500))
      ''Brachistochrone'' = Some (sqrt 2)"
  "animationState (effect (handleStartAnimation mounted) 500) = Running"
  by (simp_all add: handleResetAnimation_def effect_def Let_def handleStartAnimation_def
        mounted_rankings)
     (simp add: mounted_def effect_def Let_def drawFrame_distanceToEnd initial_state_def
        sortedProgressData_def elapsedTime_not_running sorted_at_zero progressData_at_zero
        newDistances_def)

text \<open>
  C8 as stated fails: after a reset of a run started on the mounted component the rankings
  still list the four curves and the distance of Brachistochrone is still recorded.
\<close>

theorem reset_retains_snapshot_counterexample:
  "animationState (effect (handleStartAnimation mounted) 500) = Running
   \<and> rankings (handleResetAnimation (effect (handleStartAnimation mounted) 500))
       = [''Brachistochrone'', ''Straight Line'', ''Parabola'', ''Parametric Cycloid'']
   \<and> distanceToEnd (handleResetAnimation (effect (handleStartAnimation mounted) 500))
        ''Brachistochrone'' = Some (sqrt 2)"
  by (simp add: started_from_mounted curve_order_def)

section \<open>Completion\<close>

lemma newTimes_lookup:
  "newTimes E pd prev label =
     (if label \<in> fst ` set pd \<and> curve_at E label \<noteq> None
      then map_option (\<lambda>c. toFixed 2 (time c) @ ''s'') (curve_at E label)
      else prev label)"
proof -
  define step :: "string \<times> real \<times> real \<Rightarrow> (string \<rightharpoonup> string) \<Rightarrow> (string \<rightharpoonup> string)"
    where "step = (\<lambda>(label, progress, distance) m.
             case curve_at E label of
               None \<Rightarrow> m
             | Some c \<Rightarrow> m(label \<mapsto> toFixed 2 (time c) @ ''s''))"
  have step: "step (l, p, d) m =
      (case curve_at E l of None \<Rightarrow> m | Some c \<Rightarrow> m(l \<mapsto> toFixed 2 (time c) @ ''s''))"
    for l p d m
    by (simp add: step_def)
  have "fold step pd prev label =
     (if label \<in> fst ` set pd \<and> curve_at E label \<noteq> None
      then map_option (\<lambda>c. toFixed 2 (time c) @ ''s'') (curve_at E label)
      else prev label)"
  proof (induction pd arbitrary: prev)
    case Nil
    then show ?case by simp
  next
    case (Cons e pd)
    obtain l p d where e: "e = (l, p, d)" by (cases e) auto
    show ?case
      by (auto simp: Cons.IH e step split: option.split)
  qed
  then show ?thesis
    by (simp add: newTimes_def step_def)
qed

lemma curve_at_member:
  "(label, c) \<in> set (curves E) \<Longrightarrow> curve_at E label = Some c"
  unfolding curve_at_def
  by (rule map_of_is_SomeI) (simp_all add: labels_curves curve_order_def)

lemma labels_sortedProgressData:
  "fst ` set (sortedProgressData s ts) = fst ` set (curves (cycloidParameter s))"
proof -
  have "fst ` set (sortedProgressData s ts)
          = set (map fst (progressData (curves (cycloidParameter s)) (elapsedTime s ts)))"
    by (simp add: sortedProgressData_def set_array_sort)
  then show ?thesis
    by (simp add: labels_progressData)
qed

lemma complete_draw_times:
  assumes "isAnimationComplete u" and "(label, c) \<in> set (curves (cycloidParameter u))"
  shows "elapsedTimes (drawFrame u t) label = Some (toFixed 2 (time c) @ ''s'')"
proof -
  have "label \<in> fst ` set (curves (cycloidParameter u))"
    using assms(2) by force
  then show ?thesis
    using assms(1) curve_at_member [OF assms(2)]
    by (simp add: drawFrame_elapsedTimes newTimes_lookup labels_sortedProgressData)
qed

lemma complete_idle_redraw:
  assumes "animationState u = Idle" and "isAnimationComplete u"
  shows "animationState (effect u now) = Idle"
    and "isAnimationComplete (effect u now)"
    and "\<not> animationFrameRequested (effect u now)"
    and "cycloidParameter (effect u now) = cycloidParameter u"
    and "(label, c) \<in> set (curves (cycloidParameter u)) \<Longrightarrow>
           elapsedTimes (effect u now) label = Some (toFixed 2 (time c) @ ''s'')"
proof -
  have e: "effect u now = drawFrame (u\<lparr>animationFrameRequested := False\<rparr>) now"
    using assms(1) by (simp add: effect_not_running)
  show "animationState (effect u now) = Idle"
    and "isAnimationComplete (effect u now)"
    and "\<not> animationFrameRequested (effect u now)"
    and "cycloidParameter (effect u now) = cycloidParameter u"
    using assms by (simp_all add: e drawFrame_fields)
  show "elapsedTimes (effect u now) label = Some (toFixed 2 (time c) @ ''s'')"
    if "(label, c) \<in> set (curves (cycloidParameter u))"
    unfolding e using assms(2) that by (intro complete_draw_times) simp_all
qed

lemma finishing_frame:
  assumes "run_finished s ts"
  shows "animationState (frame s ts) = Idle"
    and "isAnimationComplete (frame s ts)"
    and "\<not> animationFrameRequested (frame s ts)"
    and "cycloidParameter (frame s ts) = cycloidParameter s"
    and "\<not> isAnimationComplete s \<Longrightarrow> elapsedTimes (frame s ts) = elapsedTimes s"
  using assms
  by (simp_all add: frame_fields)
     (simp add: frame_def drawFrame_elapsedTimes)

lemma display_metric_complete:
  "isAnimationComplete u \<Longrightarrow> elapsedTimes u label = Some (x @ ''s'') \<Longrightarrow>
   display_metric u label = Some (x @ ''s'')"
  by (simp add: display_metric_def)

lemma display_metric_live:
  "\<not> isAnimationComplete u \<Longrightarrow>
   display_metric u label = map_option (toFixed 3) (distanceToEnd u label)"
  by (simp add: display_metric_def split: option.split)

lemma toFixed_two: "toFixed 2 2 = ''2.00''"
  by code_simp

lemma toFixed_four: "toFixed 2 4 = ''4.00''"
  by code_simp

lemma toFixed_two_and_a_half: "toFixed 2 (5/2) = ''2.50''"
  by code_simp

lemma race_done_fields:
  "animationState race_done = Idle" "isAnimationComplete race_done"
  "cycloidParameter race_done = 0"
  using finishing_frame(1,2,4) [OF race_done_finished]
  by (simp_all add: race_done_def race_late_fields)

lemma race_shown_fields:
  "animationState race_shown = Idle" "isAnimationComplete race_shown"
  "cycloidParameter race_shown = 0"
  "elapsedTimes race_shown ''Parametric Cycloid'' = Some ''2.00s''"
proof -
  note r = complete_idle_redraw [OF race_done_fields(1,2), where now = 3501, folded race_shown_def]
  have m: "(''Parametric Cycloid'',
      \<lparr>func = parametric_cycloid_func 0, color = ''#f59e0b'', time = 2.0 * (1 + 0)\<rparr>)
     \<in> set (curves (cycloidParameter race_done))"
    by (simp add: race_done_fields curves_def)
  show "animationState race_shown = Idle" "isAnimationComplete race_shown"
    "cycloidParameter race_shown = 0"
    using r(1,2,4) by (simp_all add: race_done_fields)
  show "elapsedTimes race_shown ''Parametric Cycloid'' = Some ''2.00s''"
    using r(5) [OF m] by (simp add: toFixed_two)
qed

text \<open>
  C5, as amended. While the run is not complete the display metric of a label is its live
  distance. A frame of a running, not yet complete run whose elapsed time has reached the
  largest curve time sets the phase to Idle and the complete flag and requests no further
  frame; it does not write the frozen times itself. The redraw that the effect makes next
  keeps Idle and the flag, requests no frame, writes for every label the text
  \<open>time.toFixed(2) + 's'\<close> of its own curve, and the display metric is then that text.
  The text is not fixed for good: every later draw with the flag set writes it again from
  the current curve set, so after the shape slider moves to \<open>v\<close> each label shows the time
  of its curve for \<open>v\<close>.
\<close>

theorem completion_freezes_times:
  assumes "animationState s = Running" and "\<not> isAnimationComplete s"
    and "run_finished s ts"
    and "(label, c) \<in> set (curves (cycloidParameter s))"
    and "(label, c') \<in> set (curves v)"
  shows "display_metric s label = map_option (toFixed 3) (distanceToEnd s label)
       \<and> animationState (frame s ts) = Idle \<and> isAnimationComplete (frame s ts)
       \<and> \<not> animationFrameRequested (frame s ts)
       \<and> elapsedTimes (frame s ts) = elapsedTimes s
       \<and> animationState (effect (frame s ts) now) = Idle
       \<and> isAnimationComplete (effect (frame s ts) now)
       \<and> \<not> animationFrameRequested (effect (frame s ts) now)
       \<and> elapsedTimes (effect (frame s ts) now) label = Some (toFixed 2 (time c) @ ''s'')
       \<and> display_metric (effect (frame s ts) now) label = Some (toFixed 2 (time c) @ ''s'')
       \<and> elapsedTimes (effect (setCycloidParameter v (effect (frame s ts) now)) now') label
            = Some (toFixed 2 (time c') @ ''s'')"
proof -
  define shown where "shown = effect (frame s ts) now"
  note f = finishing_frame [OF assms(3)]
  have m: "(label, c) \<in> set (curves (cycloidParameter (frame s ts)))"
    using assms(4) by (simp add: f(4))
  note r = complete_idle_redraw [OF f(1) f(2), where now = now, folded shown_def]
  have t: "elapsedTimes shown label = Some (toFixed 2 (time c) @ ''s'')"
    using m by (rule r(5))
  have a: "animationState (setCycloidParameter v shown) = Idle"
    and b: "isAnimationComplete (setCycloidParameter v shown)"
    and m': "(label, c') \<in> set (curves (cycloidParameter (setCycloidParameter v shown)))"
    using r(1,2) assms(5) by (simp_all add: setCycloidParameter_def)
  have t': "elapsedTimes (effect (setCycloidParameter v shown) now') label
              = Some (toFixed 2 (time c') @ ''s'')"
    using m' by (rule complete_idle_redraw(5) [OF a b])
  show ?thesis
    using f(1-3) f(5) [OF assms(2)] r(1-3) t t' display_metric_complete [OF r(2) t]
      display_metric_live [OF assms(2), where label = label]
    unfolding shown_def by simp
qed

theorem completion_freezes_times_witness:
  "animationState race_late = Running \<and> \<not> isAnimationComplete race_late
   \<and> run_finished race_late 3500
   \<and> animationState (frame race_late 3500) = Idle
   \<and> isAnimationComplete (frame race_late 3500)
   \<and> \<not> animationFrameRequested (frame race_late 3500)
   \<and> \<not> animationFrameRequested (effect (frame race_late 3500) 3501)
   \<and> elapsedTimes (effect (frame race_late 3500) 3501) ''Parametric Cycloid'' = Some ''2.00s''
   \<and> display_metric (effect (frame race_late 3500) 3501) ''Parametric Cycloid''
        = Some ''2.00s''
   \<and> elapsedTimes (effect (setCycloidParameter 1 (effect (frame race_late 3500) 3501)) 9000)
         ''Parametric Cycloid'' = Some ''4.00s''"
proof -
  have m: "(''Parametric Cycloid'',
      \<lparr>func = parametric_cycloid_func 0, color = ''#f59e0b'', time = 2.0 * (1 + 0)\<rparr>)
     \<in> set (curves (cycloidParameter race_late))"
    by (simp add: curves_def race_late_fields)
  have m': "(''Parametric Cycloid'',
      \<lparr>func = parametric_cycloid_func 1, color = ''#f59e0b'', time = 2.0 * (1 + 1)\<rparr>)
     \<in> set (curves 1)"
    by (simp add: curves_def)
  have n: "\<not> isAnimationComplete race_late"
    by (simp add: race_late_fields)
  show ?thesis
    using completion_freezes_times [OF race_late_fields(1) n race_done_finished m m',
        where now = 3501 and now' = 9000]
      n race_done_finished
    by (simp add: race_late_fields toFixed_two toFixed_four)
qed

text \<open>
  C5 as stated fails on "never overwritten": after the race with shape parameter 0 has
  completed, the Parametric Cycloid shows 2.00s; moving the shape slider to 1, within the
  same run, overwrites it with 4.00s.
\<close>

theorem frozen_time_overwritten_counterexample:
  "isAnimationComplete race_shown
   \<and> elapsedTimes race_shown ''Parametric Cycloid'' = Some ''2.00s''
   \<and> elapsedTimes (effect (setCycloidParameter 1 race_shown) 9000) ''Parametric Cycloid''
       = Some ''4.00s''"
proof -
  have a: "animationState (setCycloidParameter 1 race_shown) = Idle"
    and b: "isAnimationComplete (setCycloidParameter 1 race_shown)"
    by (simp_all add: setCycloidParameter_def race_shown_fields)
  have m: "(''Parametric Cycloid'',
      \<lparr>func = parametric_cycloid_func 1, color = ''#f59e0b'', time = 2.0 * (1 + 1)\<rparr>)
     \<in> set (curves (cycloidParameter (setCycloidParameter 1 race_shown)))"
    by (simp add: setCycloidParameter_def curves_def)
  have "elapsedTimes (effect (setCycloidParameter 1 race_shown) 9000) ''Parametric Cycloid''
       = Some ''4.00s''"
    using complete_idle_redraw(5) [OF a b m, where now = 9000] by (simp add: toFixed_four)
  then show ?thesis
    by (simp add: race_shown_fields)
qed

section \<open>The cycloid formulas in double arithmetic\<close>

lemma pow2_powi: "pow2 e = 2 powi e"
  by (simp add: pow2_def power_int_def inverse_eq_divide power_one_over)

lemma pow2_pos [simp]: "0 < pow2 e"
  by (simp add: pow2_powi)

lemma pow2_nonneg [simp]: "0 \<le> pow2 e"
  using pow2_pos [of e] by linarith

lemma pow2_abs [simp]: "\<bar>pow2 e\<bar> = pow2 e"
  by (simp add: abs_of_nonneg)

lemma pow2_neq0 [simp]: "pow2 e \<noteq> 0"
  using pow2_pos [of e] by linarith

lemma pow2_add: "pow2 (a + b) = pow2 a * pow2 b"
  by (simp add: pow2_powi power_int_add)

lemma pow2_mono: "a \<le> b \<Longrightarrow> pow2 a \<le> pow2 b"
  by (simp add: pow2_powi power_int_increasing)

lemma pow2_strict_mono: "a < b \<Longrightarrow> pow2 a < pow2 b"
  by (simp add: pow2_powi power_int_strict_increasing)

lemma pow2_nonneg_int: "0 \<le> e \<Longrightarrow> pow2 e = of_int (2 ^ nat e)"
  by (simp add: pow2_def)

lemma exponent_from_range: "e - int n \<le> exponent_from n e x \<and> exponent_from n e x \<le> e"
proof (induction n arbitrary: e)
  case 0
  then show ?case by simp
next
  case (Suc n)
  show ?case
    using Suc.IH [of "e - 1"] by simp
qed

lemma exponent_from_upper:
  "exponent_from n e x < e \<Longrightarrow> x < pow2 (exponent_from n e x + 1)"
proof (induction n arbitrary: e)
  case 0
  then show ?case by simp
next
  case (Suc n)
  show ?case
  proof (cases "pow2 e \<le> x")
    case True
    then show ?thesis using Suc.prems by simp
  next
    case False
    show ?thesis
    proof (cases "exponent_from n (e - 1) x < e - 1")
      case True
      then show ?thesis using Suc.IH [of "e - 1"] False by simp
    next
      case eq: False
      then have "exponent_from n (e - 1) x = e - 1"
        using exponent_from_range [of "e - 1" n x] by linarith
      then show ?thesis using False by simp
    qed
  qed
qed

lemma exponent_from_lower:
  "e - int n < exponent_from n e x \<Longrightarrow> pow2 (exponent_from n e x) \<le> x"
proof (induction n arbitrary: e)
  case 0
  then show ?case by simp
next
  case (Suc n)
  show ?case
  proof (cases "pow2 e \<le> x")
    case True
    then show ?thesis by simp
  next
    case False
    then show ?thesis using Suc.IH [of "e - 1"] Suc.prems by simp
  qed
qed

lemma exponent_range: "- 1074 \<le> exponent x \<and> exponent x \<le> 1023"
  using exponent_from_range [of 1023 2097 x] by (simp add: exponent_def)

lemma exponent_upper: "exponent x < 1023 \<Longrightarrow> x < pow2 (exponent x + 1)"
  unfolding exponent_def by (rule exponent_from_upper)

lemma exponent_lower: "- 1074 < exponent x \<Longrightarrow> pow2 (exponent x) \<le> x"
  unfolding exponent_def by (rule exponent_from_lower) simp

lemma exponent_ge: "pow2 k \<le> x \<Longrightarrow> k \<le> 1023 \<Longrightarrow> k \<le> exponent x"
proof (rule ccontr)
  assume a: "pow2 k \<le> x" "k \<le> 1023" and n: "\<not> k \<le> exponent x"
  then have "exponent x < 1023" by simp
  then have "x < pow2 (exponent x + 1)" by (rule exponent_upper)
  also have "\<dots> \<le> pow2 k" using n by (intro pow2_mono) simp
  finally show False using a(1) by simp
qed

lemma exponent_eq:
  assumes "pow2 k \<le> x" and "x < pow2 (k + 1)" and "- 1074 \<le> k" and "k \<le> 1023"
  shows "exponent x = k"
proof (rule ccontr)
  assume n: "exponent x \<noteq> k"
  have "k \<le> exponent x" using assms(1,4) by (rule exponent_ge)
  with n have gt: "k < exponent x" by simp
  then have "pow2 (exponent x) \<le> x" using assms(3) by (intro exponent_lower) simp
  moreover have "pow2 (k + 1) \<le> pow2 (exponent x)" using gt by (intro pow2_mono) simp
  ultimately show False using assms(2) by simp
qed

lemma rne_of_int [simp]: "rne (of_int n) = n"
  by (simp add: rne_def)

lemma rne_bounds: "of_int (rne x) \<le> x + 1/2 \<and> x - 1/2 \<le> of_int (rne x)"
  unfolding rne_def Let_def by (auto; linarith)

lemma rne_le_int: "x \<le> of_int n \<Longrightarrow> rne x \<le> n"
proof (cases "x = of_int n")
  case True
  then show ?thesis by simp
next
  case False
  assume "x \<le> of_int n"
  with False have lt: "x < of_int n" by simp
  then have f: "\<lfloor>x\<rfloor> \<le> n - 1" "\<lfloor>x\<rfloor> \<le> n"
    by (simp_all add: floor_less_iff le_floor_iff) linarith+
  show ?thesis
    unfolding rne_def Let_def using f by auto
qed

lemma rne_nonneg: "0 \<le> x \<Longrightarrow> 0 \<le> rne x"
  unfolding rne_def Let_def by auto


lemma fl_zero [simp]: "fl 0 = 0"
  by (simp add: fl_def)

lemma quantum_minus [simp]: "quantum (- x) = quantum x"
  by (simp add: quantum_def)

lemma fl_minus: "fl (- x) = - fl x"
  by (simp add: fl_def sgn_minus)

lemma fl_representable:
  assumes "y = of_int n * pow2 k" and "quantum y \<le> k"
  shows "fl y = y"
proof -
  define q where "q = quantum y"
  have kq: "0 \<le> k - q" using assms(2) by (simp add: q_def)
  have "pow2 k = pow2 ((k - q) + q)" by simp
  also have "\<dots> = pow2 (k - q) * pow2 q" by (rule pow2_add)
  also have "\<dots> = of_int (2 ^ nat (k - q)) * pow2 q"
    using kq by (simp add: pow2_nonneg_int)
  finally have pk: "pow2 k = of_int (2 ^ nat (k - q)) * pow2 q" .
  have "\<bar>y\<bar> = of_int \<bar>n\<bar> * pow2 k"
    by (simp add: assms(1) abs_mult)
  then have a: "\<bar>y\<bar> = of_int (\<bar>n\<bar> * 2 ^ nat (k - q)) * pow2 q"
    by (simp add: pk)
  then have "\<bar>y\<bar> / pow2 q = of_int (\<bar>n\<bar> * 2 ^ nat (k - q))"
    by simp
  then have "of_int (rne (\<bar>y\<bar> / pow2 q)) * pow2 q = \<bar>y\<bar>"
    by (simp only: rne_of_int a)
  then have "fl y = sgn y * \<bar>y\<bar>"
    by (simp add: fl_def q_def)
  then show ?thesis
    by (simp add: sgn_mult_abs)
qed

lemma fl_idempotent_pos:
  assumes "0 < x"
  shows "fl (fl x) = fl x"
proof -
  define e where "e = exponent x"
  define q where "q = max (e - 52) (- 1074)"
  define m where "m = rne (x / pow2 q)"
  define y where "y = of_int m * pow2 q"
  have qx: "quantum x = q"
    using assms by (simp add: quantum_def q_def e_def)
  have y: "fl x = y"
    using assms by (simp add: fl_def qx y_def m_def)
  have m0: "0 \<le> m"
    unfolding m_def using assms by (intro rne_nonneg) simp
  then have y0: "0 \<le> y"
    by (simp add: y_def)
  have er: "- 1074 \<le> e" "e \<le> 1023"
    using exponent_range [of x] by (simp_all add: e_def)
  show ?thesis
  proof (cases "exponent y \<le> e")
    case True
    then have "quantum y \<le> q"
      using y0 by (simp add: quantum_def q_def)
    then show ?thesis
      unfolding y using y_def by (intro fl_representable [of y m q])
  next
    case False
    then have gt: "e < exponent y" by simp
    then have e1023: "e < 1023"
      using exponent_range [of y] by linarith
    then have xlt: "x < pow2 (e + 1)"
      unfolding e_def by (intro exponent_upper) simp
    have "pow2 (exponent y) \<le> y"
      using gt er by (intro exponent_lower) linarith
    moreover have "pow2 (e + 1) \<le> pow2 (exponent y)"
      using gt by (intro pow2_mono) simp
    ultimately have lo: "pow2 (e + 1) \<le> y" by linarith
    have d: "0 \<le> e + 1 - q"
      using er by (simp add: q_def)
    have pe: "pow2 (e + 1) = of_int (2 ^ nat (e + 1 - q)) * pow2 q"
    proof -
      have "pow2 (e + 1) = pow2 ((e + 1 - q) + q)" by simp
      also have "\<dots> = pow2 (e + 1 - q) * pow2 q" by (rule pow2_add)
      finally show ?thesis using d by (simp add: pow2_nonneg_int)
    qed
    have "x / pow2 q \<le> of_int (2 ^ nat (e + 1 - q))"
      using xlt by (simp add: pe divide_le_eq)
    then have "m \<le> 2 ^ nat (e + 1 - q)"
      unfolding m_def by (rule rne_le_int)
    then have "(of_int m :: real) \<le> of_int (2 ^ nat (e + 1 - q))"
      by (simp only: of_int_le_iff)
    then have "of_int m * pow2 q \<le> of_int (2 ^ nat (e + 1 - q)) * pow2 q"
      by (rule mult_right_mono) simp
    then have "y \<le> pow2 (e + 1)"
      by (simp only: y_def pe)
    with lo have yeq: "y = pow2 (e + 1)" by simp
    have "exponent y = e + 1"
      using er e1023 unfolding yeq
      by (intro exponent_eq) (simp_all add: pow2_strict_mono)
    then have "quantum y \<le> e + 1"
      using y0 er by (simp add: quantum_def)
    moreover have "y = of_int 1 * pow2 (e + 1)"
      by (simp add: yeq)
    ultimately show ?thesis
      unfolding y by (intro fl_representable [of y 1 "e + 1"])
  qed
qed

lemma fl_idempotent: "fl (fl x) = fl x"
proof -
  consider "x < 0" | "x = 0" | "0 < x" by linarith
  then show ?thesis
  proof cases
    case 1
    then have "fl (fl (- x)) = fl (- x)"
      by (intro fl_idempotent_pos) simp
    then show ?thesis
      by (simp add: fl_minus)
  next
    case 2
    then show ?thesis by simp
  next
    case 3
    then show ?thesis by (rule fl_idempotent_pos)
  qed
qed

lemma fl_eval:
  assumes "pow2 k \<le> x" and "x < pow2 (k + 1)" and "- 1022 \<le> k" and "k \<le> 1023"
  shows "fl x = of_int (rne (x / pow2 (k - 52))) * pow2 (k - 52)"
proof -
  have pos: "0 < x"
    using assms(1) pow2_pos [of k] by linarith
  have "exponent x = k"
    using assms by (intro exponent_eq) simp_all
  then have "quantum x = k - 52"
    using pos assms(3) by (simp add: quantum_def)
  then show ?thesis
    using pos by (simp add: fl_def)
qed

lemma fl_one: "fl 1 = 1"
  using fl_eval [of 0 1] by (simp add: pow2_def rne_def)

lemma fl_two: "fl 2 = 2"
  using fl_eval [of 1 2] by (simp add: pow2_def rne_def)

lemma sample_theta:
  "fl (progress_sample * Math_PI) = 530567831402133 / 562949953421312"
  using fl_eval [of "- 1" "progress_sample * Math_PI"]
  by (simp add: pow2_def rne_def Let_def progress_sample_def Math_PI_def)

lemma sample_difference:
  "fl (530567831402133 / 562949953421312 - sine_sample) = 150263504203413 / 1125899906842624"
  using fl_eval [of "- 3" "530567831402133 / 562949953421312 - sine_sample"]
  by (simp add: pow2_def rne_def Let_def sine_sample_def)

lemma sample_brachistochrone_x:
  "fl (150263504203413 / 1125899906842624 / Math_PI) = 6122285941832441 / 144115188075855872"
  using fl_eval [of "- 5" "150263504203413 / 1125899906842624 / Math_PI"]
  by (simp add: pow2_def rne_def Let_def Math_PI_def)

lemma sample_quotient:
  "fl (sine_sample / Math_PI) = 1159758452528885 / 4503599627370496"
  using fl_eval [of "- 2" "sine_sample / Math_PI"]
  by (simp add: pow2_def rne_def Let_def Math_PI_def sine_sample_def)

lemma sample_cycloid_x:
  "fl (progress_sample - 1159758452528885 / 4503599627370496)
     = 765285742729055 / 18014398509481984"
  using fl_eval [of "- 5" "progress_sample - 1159758452528885 / 4503599627370496"]
  by (simp add: pow2_def rne_def Let_def progress_sample_def)

lemma y_and_time_in_doubles:
  "snd (parametric_cycloid_func_double Math_sin Math_cos Math_pow 0 t)
     = snd (brachistochrone_func_double Math_sin Math_cos t)
   \<and> parametric_cycloid_time_double 0 = 2"
  by (simp add: parametric_cycloid_func_double_def brachistochrone_func_double_def Let_def
        parametric_cycloid_time_double_def fl_idempotent fl_one fl_two mult.commute)


lemma rne_error: "\<bar>of_int (rne x) - x\<bar> \<le> 1/2"
  using rne_bounds [of x] by linarith

lemma fl_error:
  assumes "\<bar>z\<bar> \<le> B"
  shows "\<bar>fl z - z\<bar> \<le> B / 2 ^ 53 + pow2 (- 1075)"
proof (cases "z = 0")
  case True
  then show ?thesis using assms by simp
next
  case False
  define e where "e = exponent \<bar>z\<bar>"
  define q where "q = quantum z"
  define a where "a = \<bar>z\<bar> / pow2 q"
  have q: "q = max (e - 52) (- 1074)"
    by (simp add: q_def quantum_def e_def)
  have z: "\<bar>z\<bar> = a * pow2 q"
    by (simp add: a_def)
  have "fl z - z = sgn z * (of_int (rne a) * pow2 q) - sgn z * \<bar>z\<bar>"
    by (simp add: fl_def q_def a_def sgn_mult_abs)
  also have "\<dots> = sgn z * ((of_int (rne a) - a) * pow2 q)"
    by (simp add: z algebra_simps)
  finally have "\<bar>fl z - z\<bar> = \<bar>of_int (rne a) - a\<bar> * pow2 q"
    using False by (simp add: abs_mult abs_sgn_eq)
  also have "\<dots> \<le> (1/2) * pow2 q"
    using rne_error [of a] by (intro mult_right_mono) simp_all
  finally have err: "\<bar>fl z - z\<bar> \<le> pow2 q / 2"
    by simp
  have B0: "0 \<le> B"
    using assms by linarith
  show ?thesis
  proof (cases "e - 52 \<le> - 1074")
    case True
    then have "q = - 1074" by (simp add: q)
    then have "pow2 q / 2 = pow2 (- 1075)"
      using pow2_add [of "- 1075" 1] by (simp add: pow2_def)
    then show ?thesis
      using err B0 by (simp add: add_increasing)
  next
    case False
    then have qe: "q = e - 52" by (simp add: q)
    have "pow2 e \<le> \<bar>z\<bar>"
      unfolding e_def using False by (intro exponent_lower) (simp add: e_def)
    then have "pow2 e \<le> B"
      using assms by linarith
    moreover have "pow2 e = pow2 q * 2 ^ 52"
      using pow2_add [of q 52] by (simp add: qe pow2_def)
    ultimately have "pow2 q / 2 \<le> B / 2 ^ 53"
      by (simp add: field_simps)
    then show ?thesis
      using err pow2_nonneg [of "- 1075"] by linarith
  qed
qed


lemma tiny_quantum: "pow2 (- 1075) \<le> 1 / 2 ^ 53"
proof -
  have "pow2 (- 1075) \<le> pow2 (- 53)"
    by (rule pow2_mono) simp
  then show ?thesis
    by (simp add: pow2_def)
qed

lemma fl_close:
  assumes "\<bar>z\<bar> \<le> of_nat n"
  shows "\<bar>fl z - z\<bar> \<le> of_nat (n + 1) / 2 ^ 53"
proof -
  have "\<bar>fl z - z\<bar> \<le> of_nat n / 2 ^ 53 + pow2 (- 1075)"
    using assms by (rule fl_error)
  also have "\<dots> \<le> of_nat n / 2 ^ 53 + 1 / 2 ^ 53"
    using tiny_quantum by simp
  also have "\<dots> = of_nat (n + 1) / 2 ^ 53"
    by (simp add: add_divide_distrib)
  finally show ?thesis .
qed

lemma Math_PI_bounds: "3 \<le> Math_PI" "Math_PI \<le> 4"
  by (simp_all add: Math_PI_def)

lemma divide_by_pi_close:
  assumes "\<bar>a - b\<bar> \<le> c"
  shows "\<bar>a / Math_PI - b / Math_PI\<bar> \<le> c / 3"
proof -
  have c: "0 \<le> c" using assms by linarith
  have "\<bar>a / Math_PI - b / Math_PI\<bar> = \<bar>a - b\<bar> / Math_PI"
    using Math_PI_bounds by (simp add: diff_divide_distrib [symmetric] abs_divide del: diff_divide_distrib)
  also have "\<dots> \<le> c / Math_PI"
    using assms Math_PI_bounds by (intro divide_right_mono) simp_all
  also have "\<dots> \<le> c / 3"
    using c Math_PI_bounds by (intro divide_left_mono) simp_all
  finally show ?thesis .
qed

lemma x_coordinates_close:
  assumes "0 \<le> t" and "t \<le> 1" and "\<bar>Math_sin (fl (t * Math_PI))\<bar> \<le> 1"
  shows "\<bar>fst (brachistochrone_func_double Math_sin Math_cos t)
          - fst (parametric_cycloid_func_double Math_sin Math_cos Math_pow E t)\<bar> \<le> 1 / 2 ^ 49"
proof -
  define u :: real where "u = 1 / 2 ^ 53"
  define P where "P = Math_PI"
  define \<theta> where "\<theta> = fl (t * P)"
  define s where "s = Math_sin \<theta>"
  define a where "a = fl (\<theta> - s)"
  define xB where "xB = fl (a / P)"
  define b where "b = fl (s / P)"
  define xC where "xC = fl (t - b)"
  define x where "x = t - s / P"
  have u: "0 < u" "u \<le> 1/1000"
    by (simp_all add: u_def)
  have P: "3 \<le> P" "P \<le> 4"
    using Math_PI_bounds by (simp_all add: P_def)
  have s1: "\<bar>s\<bar> \<le> 1"
    using assms(3) by (simp add: s_def \<theta>_def P_def)
  have tP: "\<bar>t * P\<bar> \<le> of_nat 4"
  proof -
    have "t * P \<le> 1 * 4"
      using assms P by (intro mult_mono) simp_all
    moreover have "0 \<le> t * P"
      using assms P by simp
    ultimately show ?thesis by simp
  qed
  have e\<theta>: "\<bar>\<theta> - t * P\<bar> \<le> 5 * u"
    using fl_close [OF tP] by (simp add: \<theta>_def u_def)
  have "\<bar>\<theta> - s\<bar> \<le> of_nat 6"
    using e\<theta> tP s1 u by (simp; linarith?)
  then have ea: "\<bar>a - (\<theta> - s)\<bar> \<le> 7 * u"
    using fl_close [of "\<theta> - s" 6] by (simp add: a_def u_def)
  have a7: "\<bar>a\<bar> \<le> 7"
    using ea e\<theta> tP s1 u by (simp; linarith?)
  have "\<bar>a / P\<bar> \<le> 3"
  proof -
    have "\<bar>a / P\<bar> = \<bar>a\<bar> / P"
      using P by (simp add: abs_divide)
    also have "\<dots> \<le> 7 / 3"
      using a7 P by (intro frac_le) simp_all
    finally show ?thesis by linarith
  qed
  then have eB: "\<bar>xB - a / P\<bar> \<le> 4 * u"
    using fl_close [of "a / P" 3] by (simp add: xB_def u_def)
  have d1: "\<bar>a / P - (\<theta> - s) / P\<bar> \<le> 7 * u / 3"
    using ea unfolding P_def by (rule divide_by_pi_close)
  have "\<bar>(\<theta> - s) - (t * P - s)\<bar> \<le> 5 * u"
    using e\<theta> by simp
  then have d2: "\<bar>(\<theta> - s) / P - (t * P - s) / P\<bar> \<le> 5 * u / 3"
    unfolding P_def by (rule divide_by_pi_close)
  have xeq: "(t * P - s) / P = x"
    using P by (simp add: x_def diff_divide_distrib)
  have B: "\<bar>xB - x\<bar> \<le> 9 * u"
    using eB d1 d2 u unfolding xeq by linarith
  have "\<bar>s / P\<bar> \<le> 1"
  proof -
    have "\<bar>s / P\<bar> = \<bar>s\<bar> / P"
      using P by (simp add: abs_divide)
    also have "\<dots> \<le> 1 / 3"
      using s1 P by (intro frac_le) simp_all
    finally show ?thesis by linarith
  qed
  then have eb: "\<bar>b - s / P\<bar> \<le> 2 * u" and sP: "\<bar>s / P\<bar> \<le> 1"
    using fl_close [of "s / P" 1] by (simp_all add: b_def u_def)
  have "\<bar>t - b\<bar> \<le> of_nat 3"
    using eb sP assms(1,2) u by (simp; linarith?)
  then have eC: "\<bar>xC - (t - b)\<bar> \<le> 4 * u"
    using fl_close [of "t - b" 3] by (simp add: xC_def u_def)
  have C: "\<bar>xC - x\<bar> \<le> 6 * u"
    using eC eb unfolding x_def by linarith
  have "\<bar>xB - xC\<bar> \<le> 16 * u"
    using B C u by linarith
  moreover have "fst (brachistochrone_func_double Math_sin Math_cos t) = xB"
    by (simp add: brachistochrone_func_double_def Let_def xB_def a_def s_def \<theta>_def P_def)
  moreover have "fst (parametric_cycloid_func_double Math_sin Math_cos Math_pow E t) = xC"
    by (simp add: parametric_cycloid_func_double_def xC_def b_def s_def \<theta>_def P_def
          mult.commute)
  ultimately show ?thesis
    by (simp add: u_def)
qed

text \<open>
  C10, as amended. With the shape parameter 0 the Parametric Cycloid and the
  Brachistochrone have, as computed in doubles, the same \<open>time\<close> 2.0 and the same y
  coordinate at every progress value, whatever the engine's routines return. Their x
  coordinates are computed by different operations and agree up to rounding only: for a
  progress in \<open>[0,1]\<close> and a sine routine that stays within \<open>[-1,1]\<close> they differ by at most
  \<open>2^-49\<close>. Over the reals the two position functions are equal at every progress value
  and both times are 2.0.
\<close>

theorem cycloid_zero_matches_brachistochrone:
  "snd (parametric_cycloid_func_double Math_sin Math_cos Math_pow 0 t)
     = snd (brachistochrone_func_double Math_sin Math_cos t)
   \<and> parametric_cycloid_time_double 0 = 2
   \<and> (0 \<le> t \<and> t \<le> 1 \<and> \<bar>Math_sin (fl (t * Math_PI))\<bar> \<le> 1 \<longrightarrow>
        \<bar>fst (brachistochrone_func_double Math_sin Math_cos t)
          - fst (parametric_cycloid_func_double Math_sin Math_cos Math_pow 0 t)\<bar> \<le> 1 / 2 ^ 49)
   \<and> (\<exists>b c. curve_at 0 ''Brachistochrone'' = Some b
          \<and> curve_at 0 ''Parametric Cycloid'' = Some c
          \<and> func c r = func b r
          \<and> time c = 2 \<and> time b = 2)"
  using y_and_time_in_doubles [of Math_sin Math_cos Math_pow t]
    x_coordinates_close [of t Math_sin Math_cos Math_pow 0]
    real_laws_agree_at_zero [of r]
  by simp

theorem cycloid_zero_matches_brachistochrone_witness:
  "0 \<le> progress_sample \<and> progress_sample \<le> 1
   \<and> \<bar>returning sine_sample (fl (progress_sample * Math_PI))\<bar> \<le> 1
   \<and> \<bar>fst (brachistochrone_func_double (returning sine_sample) (returning cosine_sample)
            progress_sample)
        - fst (parametric_cycloid_func_double (returning sine_sample) (returning cosine_sample)
            (returning (returning squared_sine_sample)) 0 progress_sample)\<bar> \<le> 1 / 2 ^ 49
   \<and> snd (parametric_cycloid_func_double (returning sine_sample) (returning cosine_sample)
            (returning (returning squared_sine_sample)) 0 progress_sample)
      = snd (brachistochrone_func_double (returning sine_sample) (returning cosine_sample)
            progress_sample)"
proof -
  have h: "0 \<le> progress_sample \<and> progress_sample \<le> 1
      \<and> \<bar>returning sine_sample (fl (progress_sample * Math_PI))\<bar> \<le> 1"
    by (simp add: returning_def progress_sample_def sine_sample_def)
  note r = cycloid_zero_matches_brachistochrone
    [of "returning sine_sample" "returning cosine_sample"
        "returning (returning squared_sine_sample)" progress_sample 0]
  show ?thesis
    using h conjunct1 [OF r] conjunct1 [OF conjunct2 [OF conjunct2 [OF r]]]
    by blast
qed

text \<open>
  C10 as stated fails on the computed values: at the progress 0.3, with the sine routine
  returning 0.8090169943749475, the Brachistochrone's x coordinate is the double
  0.04248189259975805 and the Parametric Cycloid's, at shape parameter 0, is the double
  0.04248189259975804.
\<close>

theorem x_coordinates_differ_counterexample:
  "fst (brachistochrone_func_double (returning sine_sample) (returning cosine_sample)
          progress_sample) = 6122285941832441 / 144115188075855872
   \<and> fst (parametric_cycloid_func_double (returning sine_sample) (returning cosine_sample)
            (returning (returning squared_sine_sample)) 0 progress_sample) = 765285742729055 / 18014398509481984
   \<and> fst (brachistochrone_func_double (returning sine_sample) (returning cosine_sample)
          progress_sample)
      \<noteq> fst (parametric_cycloid_func_double (returning sine_sample) (returning cosine_sample)
            (returning (returning squared_sine_sample)) 0 progress_sample)"
proof -
  have b: "fst (brachistochrone_func_double (returning sine_sample) (returning cosine_sample)
          progress_sample) = 6122285941832441 / 144115188075855872"
    by (simp only: brachistochrone_func_double_def Let_def returning_def fst_conv
          sample_theta sample_difference sample_brachistochrone_x)
  have c: "fst (parametric_cycloid_func_double (returning sine_sample) (returning cosine_sample)
            (returning (returning squared_sine_sample)) 0 progress_sample) = 765285742729055 / 18014398509481984"
    by (simp only: parametric_cycloid_func_double_def returning_def fst_conv
          sample_quotient sample_cycloid_x)
  show ?thesis
    unfolding b c by simp
qed

text \<open>
  The difference does not hang on the last bit of the sine: it is there as well when the
  routine returns either neighbour of that double, 0.8090169943749473 or
  0.8090169943749476.
\<close>

lemma x_coordinates_differ_nearby_sines:
  "fst (brachistochrone_func_double (returning (7286977268806823 / 9007199254740992))
          (returning cosine_sample) progress_sample)
     \<noteq> fst (parametric_cycloid_func_double (returning (7286977268806823 / 9007199254740992))
          (returning cosine_sample) (returning (returning squared_sine_sample)) 0
          progress_sample)
   \<and> fst (brachistochrone_func_double (returning (7286977268806825 / 9007199254740992))
          (returning cosine_sample) progress_sample)
     \<noteq> fst (parametric_cycloid_func_double (returning (7286977268806825 / 9007199254740992))
          (returning cosine_sample) (returning (returning squared_sine_sample)) 0
          progress_sample)"
proof -
  have a1: "fl (530567831402133 / 562949953421312 - 7286977268806823 / 9007199254740992)
      = 1202108033627305 / 9007199254740992"
    using fl_eval [of "- 3"
        "530567831402133 / 562949953421312 - 7286977268806823 / 9007199254740992"]
    by (simp add: pow2_def rne_def Let_def)
  have b1: "fl (1202108033627305 / 9007199254740992 / Math_PI)
      = 3061142970916223 / 72057594037927936"
    using fl_eval [of "- 5" "1202108033627305 / 9007199254740992 / Math_PI"]
    by (simp add: pow2_def rne_def Let_def Math_PI_def)
  have c1: "fl (7286977268806823 / 9007199254740992 / Math_PI)
      = 4639033810115539 / 18014398509481984"
    using fl_eval [of "- 2" "7286977268806823 / 9007199254740992 / Math_PI"]
    by (simp add: pow2_def rne_def Let_def Math_PI_def)
  have d1: "fl (progress_sample - 4639033810115539 / 18014398509481984)
      = 23915179460283 / 562949953421312"
    using fl_eval [of "- 5" "progress_sample - 4639033810115539 / 18014398509481984"]
    by (simp add: pow2_def rne_def Let_def progress_sample_def)
  have a2: "fl (530567831402133 / 562949953421312 - 7286977268806825 / 9007199254740992)
      = 1202108033627303 / 9007199254740992"
    using fl_eval [of "- 3"
        "530567831402133 / 562949953421312 - 7286977268806825 / 9007199254740992"]
    by (simp add: pow2_def rne_def Let_def)
  have b2: "fl (1202108033627303 / 9007199254740992 / Math_PI)
      = 1530571485458109 / 36028797018963968"
    using fl_eval [of "- 5" "1202108033627303 / 9007199254740992 / Math_PI"]
    by (simp add: pow2_def rne_def Let_def Math_PI_def)
  have c2: "fl (7286977268806825 / 9007199254740992 / Math_PI)
      = 4639033810115541 / 18014398509481984"
    using fl_eval [of "- 2" "7286977268806825 / 9007199254740992 / Math_PI"]
    by (simp add: pow2_def rne_def Let_def Math_PI_def)
  have d2: "fl (progress_sample - 4639033810115541 / 18014398509481984)
      = 382642871364527 / 9007199254740992"
    using fl_eval [of "- 5" "progress_sample - 4639033810115541 / 18014398509481984"]
    by (simp add: pow2_def rne_def Let_def progress_sample_def)
  have x1: "fst (brachistochrone_func_double (returning (7286977268806823 / 9007199254740992))
          (returning cosine_sample) progress_sample) = 3061142970916223 / 72057594037927936"
    by (simp only: brachistochrone_func_double_def Let_def returning_def fst_conv
          sample_theta a1 b1)
  have y1: "fst (parametric_cycloid_func_double (returning (7286977268806823 / 9007199254740992))
          (returning cosine_sample) (returning (returning squared_sine_sample)) 0
          progress_sample) = 23915179460283 / 562949953421312"
    by (simp only: parametric_cycloid_func_double_def returning_def fst_conv c1 d1)
  have x2: "fst (brachistochrone_func_double (returning (7286977268806825 / 9007199254740992))
          (returning cosine_sample) progress_sample) = 1530571485458109 / 36028797018963968"
    by (simp only: brachistochrone_func_double_def Let_def returning_def fst_conv
          sample_theta a2 b2)
  have y2: "fst (parametric_cycloid_func_double (returning (7286977268806825 / 9007199254740992))
          (returning cosine_sample) (returning (returning squared_sine_sample)) 0
          progress_sample) = 382642871364527 / 9007199254740992"
    by (simp only: parametric_cycloid_func_double_def returning_def fst_conv c2 d2)
  show ?thesis
    unfolding x1 y1 x2 y2 by simp
qed

end
